theory Spec2Isabelle
  imports Complex_Main
begin

section \<open>Data model of \<open>recommendation_engine.py\<close>\<close>

text \<open>
  The dataclasses \<open>Book\<close>, \<open>Student\<close>, \<open>BorrowingRecord\<close> and \<open>Recommendation\<close>
  become records. Python floats are idealised as real numbers (no rounding), Python
  \<open>str\<close> values as \<open>string\<close>, \<open>datetime\<close> values as integers (no modelled
  operation reads them). Field names that occur in two dataclasses carry a prefix in
  the second one (\<open>student_reading_level\<close>, \<open>rec_student_id\<close>, \<open>rec_book_id\<close>).
  The \<open>reason\<close> text of a recommendation is not modelled: its wording depends on
  the iteration order of a Python \<open>set\<close>, and nothing below reads it.
\<close>

record book =
  book_id :: string
  title :: string
  author :: string
  isbn :: string
  genre :: "string list"
  subject :: "string list"
  reading_level :: string
  description :: string
  publication_year :: int
  page_count :: int
  language :: string
  available_copies :: int
  total_copies :: int
  popularity_score :: real

record student =
  student_id :: string
  grade_level :: int
  student_reading_level :: string
  preferred_genres :: "string list"
  interests :: "string list"
  reading_history :: "string list"

record borrowing_record =
  rec_student_id :: string
  rec_book_id :: string
  borrow_date :: int
  return_date :: "int option"
  rating :: "int option"
  completed :: bool

record recommendation =
  book :: book
  score :: real
  strategy :: string
  confidence :: real

datatype error = KeyError | IndexError

subsection \<open>Python dictionaries\<close>

text \<open>
  A \<open>dict\<close> keeps its keys in insertion order, and the engine iterates over
  \<open>books_catalog.values()\<close>, so a dictionary is an association list with distinct
  keys: assigning to a key that is present replaces the value in place, assigning to a
  new key appends.
\<close>

type_synonym ('k, 'v) dict = "('k \<times> 'v) list"

fun dict_set :: "('k, 'v) dict \<Rightarrow> 'k \<Rightarrow> 'v \<Rightarrow> ('k, 'v) dict" where
  "dict_set [] k v = [(k, v)]"
| "dict_set ((k', v') # d) k v =
     (if k' = k then (k, v) # d else (k', v') # dict_set d k v)"

definition dict_get :: "('k, 'v) dict \<Rightarrow> 'k \<Rightarrow> 'v option" where
  "dict_get d k = map_of d k"

definition dict_keys :: "('k, 'v) dict \<Rightarrow> 'k list" where
  "dict_keys d = map fst d"

definition dict_values :: "('k, 'v) dict \<Rightarrow> 'v list" where
  "dict_values d = map snd d"

subsection \<open>Python strings\<close>

text \<open>
  \<open>str.lower\<close> and \<open>str.split()\<close> on ASCII text: the upper-case letters are
  mapped to lower case, and a string is cut at runs of the ASCII white space
  characters (codes 9 to 13 and 28 to 32), empty pieces dropped.
\<close>

definition lower_char :: "char \<Rightarrow> char" where
  "lower_char c =
     (let n = (of_char c :: nat)
      in if 65 \<le> n \<and> n \<le> 90 then char_of (n + 32) else c)"

definition py_lower :: "string \<Rightarrow> string" where
  "py_lower s = map lower_char s"

definition is_space :: "char \<Rightarrow> bool" where
  "is_space c =
     (let n = (of_char c :: nat)
      in (9 \<le> n \<and> n \<le> 13) \<or> (28 \<le> n \<and> n \<le> 32))"

fun split_acc :: "string \<Rightarrow> string \<Rightarrow> string list" where
  "split_acc cur [] = (if cur = [] then [] else [rev cur])"
| "split_acc cur (c # cs) =
     (if is_space c then (if cur = [] then split_acc [] cs else rev cur # split_acc [] cs)
      else split_acc (c # cur) cs)"

definition py_split :: "string \<Rightarrow> string list" where
  "py_split s = split_acc [] s"

section \<open>Score enhancer (\<open>LLMRecommender._mock_llm_enhancement\<close>)\<close>

text \<open>
  The three rule checks, each adding its boost to \<open>score_boost\<close>, then
  \<open>min(1.0, base_score + score_boost)\<close>. The two Python sets of words are lists
  here; only the emptiness of their intersection is read.
\<close>

definition matched_genres :: "student \<Rightarrow> book \<Rightarrow> string list" where
  "matched_genres st bk = filter (\<lambda>g. g \<in> set (preferred_genres st)) (genre bk)"

definition interest_keywords :: "student \<Rightarrow> string list" where
  "interest_keywords st = concat (map (\<lambda>interest. map py_lower (py_split interest)) (interests st))"

definition description_words :: "book \<Rightarrow> string list" where
  "description_words bk = py_split (py_lower (description bk))"

definition score_boost :: "student \<Rightarrow> book \<Rightarrow> real" where
  "score_boost st bk =
     (let b0 = 0;
          b1 = (if matched_genres st bk \<noteq> [] then b0 + 0.1 else b0);
          b2 = (if reading_level bk = student_reading_level st then b1 + 0.05 else b1);
          b3 = (if filter (\<lambda>w. w \<in> set (description_words bk)) (interest_keywords st) \<noteq> []
                then b2 + 0.15 else b2)
      in b3)"

definition mock_llm_enhancement :: "student \<Rightarrow> book \<Rightarrow> real \<Rightarrow> real" where
  "mock_llm_enhancement st bk base_score = min 1 (base_score + score_boost st bk)"

definition enhance_recommendation :: "student \<Rightarrow> book \<Rightarrow> real \<Rightarrow> real" where
  \<comment> \<open>the engine is built with \<open>use_mock=True\<close>\<close>
  "enhance_recommendation st bk base_score = mock_llm_enhancement st bk base_score"

section \<open>Library operations used by the models\<close>

subsection \<open>Sorting\<close>

text \<open>
  \<open>sorted(xs, key=k, reverse=True)\<close> and \<open>list.sort(key=k, reverse=True)\<close> are
  stable: elements with equal keys keep their order. That is the stable insertion sort
  \<open>sort_key\<close> on the negated key. \<open>Series.nlargest(n)\<close> of pandas (with its default
  \<open>keep='first'\<close>) gives the first \<open>n\<close> entries of the same order.
\<close>

definition sort_desc :: "('a \<Rightarrow> real) \<Rightarrow> 'a list \<Rightarrow> 'a list" where
  "sort_desc k xs = sort_key (\<lambda>x. - k x) xs"

type_synonym series = "(string \<times> real) list"

definition nlargest :: "nat \<Rightarrow> series \<Rightarrow> series" where
  "nlargest n ser = take n (sort_desc snd ser)"

subsection \<open>Vectors and cosine similarity\<close>

text \<open>
  \<open>sklearn.metrics.pairwise.cosine_similarity\<close> scales every row to Euclidean
  length one, leaving a zero row as it is, and returns the dot products.
\<close>

definition dot :: "real list \<Rightarrow> real list \<Rightarrow> real" where
  "dot u v = sum_list (map2 (*) u v)"

definition l2_norm :: "real list \<Rightarrow> real" where
  "l2_norm v = sqrt (dot v v)"

definition l2_normalize :: "real list \<Rightarrow> real list" where
  "l2_normalize v = (if l2_norm v = 0 then v else map (\<lambda>x. x / l2_norm v) v)"

definition cosine_similarity :: "real list \<Rightarrow> real list \<Rightarrow> real" where
  "cosine_similarity u v = dot (l2_normalize u) (l2_normalize v)"

subsection \<open>Data frames\<close>

text \<open>
  A pandas \<open>DataFrame\<close> with string labels: the row labels, the column labels and
  the cell of each pair of labels. Reading with a label that is absent raises
  \<open>KeyError\<close>.
\<close>

record dataframe =
  df_index :: "string list"
  df_columns :: "string list"
  df_cell :: "string \<Rightarrow> string \<Rightarrow> real"

definition df_row_values :: "dataframe \<Rightarrow> string \<Rightarrow> real list" where
  "df_row_values m u = map (df_cell m u) (df_columns m)"

definition df_column_values :: "dataframe \<Rightarrow> string \<Rightarrow> real list" where
  "df_column_values m b = map (\<lambda>u. df_cell m u b) (df_index m)"

definition df_loc :: "dataframe \<Rightarrow> string \<Rightarrow> string \<Rightarrow> error + real" where
  "df_loc m u b =
     (if u \<in> set (df_index m) \<and> b \<in> set (df_columns m) then Inr (df_cell m u b)
      else Inl KeyError)"

definition df_loc_row :: "dataframe \<Rightarrow> string \<Rightarrow> error + series" where
  "df_loc_row m u =
     (if u \<in> set (df_index m) then Inr (map (\<lambda>b. (b, df_cell m u b)) (df_columns m))
      else Inl KeyError)"

definition df_getitem :: "dataframe \<Rightarrow> string \<Rightarrow> error + series" where
  "df_getitem m b =
     (if b \<in> set (df_columns m) then Inr (map (\<lambda>u. (u, df_cell m u b)) (df_index m))
      else Inl KeyError)"

definition df_loc_set :: "dataframe \<Rightarrow> string \<Rightarrow> string \<Rightarrow> real \<Rightarrow> dataframe" where
  \<comment> \<open>\<open>m.loc[u, b] = v\<close> for labels that are present (\<open>fit\<close> writes no other)\<close>
  "df_loc_set m u b v = m\<lparr>df_cell := (df_cell m)(u := (df_cell m u)(b := v))\<rparr>"

definition df_sum_axis0 :: "dataframe \<Rightarrow> series" where
  "df_sum_axis0 m = map (\<lambda>b. (b, sum_list (df_column_values m b))) (df_columns m)"

section \<open>Collaborative model (\<open>CollaborativeFilter\<close>)\<close>

text \<open>
  \<open>list(set(...))\<close> lists the distinct elements in an order Python does not fix; the
  order is the parameter \<open>list_set\<close> of \<open>fit\<close>, and \<open>set_order\<close> says that it lists
  each element once. The fitted SVD model is left out: no method reads it. \<open>fit\<close>
  assigns the similarity matrices only when there are at least two labels, so an
  earlier fit's matrix stays otherwise.
\<close>

definition set_order :: "(string list \<Rightarrow> string list) \<Rightarrow> bool" where
  "set_order list_set = (\<forall>xs. distinct (list_set xs) \<and> set (list_set xs) = set xs)"

record collaborative_filter =
  user_item_matrix :: "dataframe option"
  user_similarity_matrix :: "dataframe option"
  item_similarity_matrix :: "dataframe option"

definition collaborative_filter_init :: collaborative_filter where
  "collaborative_filter_init =
     \<lparr>user_item_matrix = None, user_similarity_matrix = None, item_similarity_matrix = None\<rparr>"

definition record_value :: "borrowing_record \<Rightarrow> real" where
  "record_value r =
     (case rating r of
        Some k \<Rightarrow> (if k \<noteq> 0 then real_of_int k / 5 else if completed r then 1.2 else 1)
      | None \<Rightarrow> (if completed r then 1.2 else 1))"

definition fill_matrix :: "borrowing_record list \<Rightarrow> dataframe \<Rightarrow> dataframe" where
  "fill_matrix recs m =
     fold (\<lambda>r m'. df_loc_set m' (rec_student_id r) (rec_book_id r) (record_value r)) recs m"

definition user_similarity :: "dataframe \<Rightarrow> dataframe" where
  "user_similarity m =
     \<lparr>df_index = df_index m, df_columns = df_index m,
      df_cell = (\<lambda>u v. cosine_similarity (df_row_values m u) (df_row_values m v))\<rparr>"

definition item_similarity :: "dataframe \<Rightarrow> dataframe" where
  "item_similarity m =
     \<lparr>df_index = df_columns m, df_columns = df_columns m,
      df_cell = (\<lambda>a b. cosine_similarity (df_column_values m a) (df_column_values m b))\<rparr>"

definition fit ::
  "(string list \<Rightarrow> string list) \<Rightarrow> collaborative_filter \<Rightarrow> borrowing_record list \<Rightarrow>
   collaborative_filter" where
  "fit list_set cf borrowing_records =
     (let user_ids = list_set (map rec_student_id borrowing_records);
          book_ids = list_set (map rec_book_id borrowing_records);
          m = fill_matrix borrowing_records
                \<lparr>df_index = user_ids, df_columns = book_ids, df_cell = (\<lambda>u b. 0)\<rparr>
      in \<lparr>user_item_matrix = Some m,
          user_similarity_matrix =
            (if length user_ids > 1 then Some (user_similarity m) else user_similarity_matrix cf),
          item_similarity_matrix =
            (if length book_ids > 1 then Some (item_similarity m) else item_similarity_matrix cf)\<rparr>)"

text \<open>
  \<open>recommendations[book_id] += v\<close> on a \<open>defaultdict(float)\<close>: a new key starts
  from \<open>0.0\<close>.
\<close>

definition dict_add :: "(string, real) dict \<Rightarrow> string \<Rightarrow> real \<Rightarrow> (string, real) dict" where
  "dict_add d k v = dict_set d k ((case dict_get d k of None \<Rightarrow> 0 | Some x \<Rightarrow> x) + v)"

fun aggregate_books ::
  "dataframe \<Rightarrow> string \<Rightarrow> real \<Rightarrow> series \<Rightarrow> (string, real) dict \<Rightarrow> error + (string, real) dict" where
  "aggregate_books m sid similarity_score [] recs = Inr recs"
| "aggregate_books m sid similarity_score ((bid, rt) # rest) recs =
     (case df_loc m sid bid of
        Inl e \<Rightarrow> Inl e
      | Inr w \<Rightarrow>
          aggregate_books m sid similarity_score rest
            (if w = 0 then dict_add recs bid (rt * similarity_score) else recs))"

fun aggregate_users ::
  "dataframe \<Rightarrow> dataframe \<Rightarrow> string \<Rightarrow> string list \<Rightarrow> (string, real) dict \<Rightarrow>
   error + (string, real) dict" where
  "aggregate_users m s sid [] recs = Inr recs"
| "aggregate_users m s sid (user # users) recs =
     (case df_loc s sid user of
        Inl e \<Rightarrow> Inl e
      | Inr similarity_score \<Rightarrow>
          (case df_loc_row m user of
             Inl e \<Rightarrow> Inl e
           | Inr user_books \<Rightarrow>
               (case aggregate_books m sid similarity_score
                       (filter (\<lambda>p. snd p > 0) user_books) recs of
                  Inl e \<Rightarrow> Inl e
                | Inr recs' \<Rightarrow> aggregate_users m s sid users recs')))"

definition collab_recommend :: "collaborative_filter \<Rightarrow> string \<Rightarrow> nat \<Rightarrow> error + series" where
  "collab_recommend cf sid n =
     (case user_item_matrix cf of
        None \<Rightarrow> Inr []
      | Some m \<Rightarrow>
          if sid \<notin> set (df_index m) then Inr (nlargest n (df_sum_axis0 m))
          else
            (case user_similarity_matrix cf of
               None \<Rightarrow> Inr []
             | Some s \<Rightarrow>
                 (case df_getitem s sid of
                    Inl e \<Rightarrow> Inl e
                  | Inr col \<Rightarrow>
                      (case aggregate_users m s sid (tl (map fst (nlargest 6 col))) [] of
                         Inl e \<Rightarrow> Inl e
                       | Inr recs \<Rightarrow> Inr (take n (sort_desc snd recs))))))"

section \<open>Content model (\<open>ContentBasedFilter\<close>)\<close>

text \<open>
  The TF-IDF vectorizer of scikit-learn is the parameter \<open>vectorizer\<close>: it maps the
  feature texts to the rows of the feature matrix. \<open>fit\<close> replaces \<open>book_ids\<close>
  always and \<open>book_features\<close> only when there is a text. Indexing the matrix or
  \<open>book_ids\<close> past the end raises \<open>IndexError\<close>.
\<close>

record content_based_filter =
  book_features :: "real list list option"
  book_ids :: "string list"

definition content_based_filter_init :: content_based_filter where
  "content_based_filter_init = \<lparr>book_features = None, book_ids = []\<rparr>"

fun py_join :: "string \<Rightarrow> string list \<Rightarrow> string" where
  "py_join sep [] = []"
| "py_join sep [x] = x"
| "py_join sep (x # y # ys) = x @ sep @ py_join sep (y # ys)"

definition feature_text :: "book \<Rightarrow> string" where
  "feature_text bk =
     title bk @ '' '' @ author bk @ '' '' @ py_join '' '' (genre bk) @ '' '' @
     py_join '' '' (subject bk) @ '' '' @ description bk"

definition content_fit ::
  "(string list \<Rightarrow> real list list) \<Rightarrow> content_based_filter \<Rightarrow> book list \<Rightarrow> content_based_filter" where
  "content_fit vectorizer cb books =
     (let feature_texts = map feature_text books
      in \<lparr>book_features =
            (if feature_texts \<noteq> [] then Some (vectorizer feature_texts) else book_features cb),
          book_ids = map book_id books\<rparr>)"

fun list_index :: "'a list \<Rightarrow> 'a \<Rightarrow> nat" where
  "list_index [] x = 0"
| "list_index (y # ys) x = (if y = x then 0 else Suc (list_index ys x))"

definition last_n :: "nat \<Rightarrow> 'a list \<Rightarrow> 'a list" where
  \<comment> \<open>the slice \<open>xs[-n:]\<close> for \<open>n > 0\<close>\<close>
  "last_n n xs = drop (length xs - n) xs"

fun history_indices :: "string list \<Rightarrow> string list \<Rightarrow> nat list" where
  "history_indices ids [] = []"
| "history_indices ids (bid # rest) =
     (if bid \<in> set ids then list_index ids bid # history_indices ids rest
      else history_indices ids rest)"

fun select_rows :: "real list list \<Rightarrow> nat list \<Rightarrow> error + real list list" where
  "select_rows feats [] = Inr []"
| "select_rows feats (i # rest) =
     (if i < length feats then
        (case select_rows feats rest of Inl e \<Rightarrow> Inl e | Inr rows \<Rightarrow> Inr (feats ! i # rows))
      else Inl IndexError)"

fun vec_sum :: "real list list \<Rightarrow> real list" where
  "vec_sum [] = []"
| "vec_sum [r] = r"
| "vec_sum (r # r' # rs) = map2 (+) r (vec_sum (r' # rs))"

definition mean_axis0 :: "real list list \<Rightarrow> real list" where
  \<comment> \<open>the mean of the rows of a matrix (rows of one length), column by column\<close>
  "mean_axis0 rows = map (\<lambda>x. x / real (length rows)) (vec_sum rows)"

fun unread_scores :: "string list \<Rightarrow> string list \<Rightarrow> real list \<Rightarrow> error + series" where
  "unread_scores hist ids [] = Inr []"
| "unread_scores hist [] (sc # scs) = Inl IndexError"
| "unread_scores hist (bid # ids) (sc # scs) =
     (case unread_scores hist ids scs of
        Inl e \<Rightarrow> Inl e
      | Inr rest \<Rightarrow> Inr (if bid \<notin> set hist then (bid, sc) # rest else rest))"

definition content_recommend :: "content_based_filter \<Rightarrow> student \<Rightarrow> nat \<Rightarrow> error + series" where
  "content_recommend cb st n =
     (case book_features cb of
        None \<Rightarrow> Inr []
      | Some feats \<Rightarrow>
          if reading_history st = [] then Inr []
          else
            (let idxs = history_indices (book_ids cb) (last_n 10 (reading_history st))
             in if idxs = [] then Inr []
                else
                  (case select_rows feats idxs of
                     Inl e \<Rightarrow> Inl e
                   | Inr history_vectors \<Rightarrow>
                       (let avg_profile = mean_axis0 history_vectors;
                            similarities = map (cosine_similarity avg_profile) feats
                        in case unread_scores (reading_history st) (book_ids cb) similarities of
                             Inl e \<Rightarrow> Inl e
                           | Inr recs \<Rightarrow> Inr (take n (sort_desc snd recs))))))"

section \<open>The engine (\<open>SmartReadsRecommendationEngine\<close>)\<close>

record engine =
  collaborative_filter :: collaborative_filter
  content_filter :: content_based_filter
  books_catalog :: "(string, book) dict"
  students :: "(string, student) dict"
  borrowing_records :: "borrowing_record list"

definition engine_init :: engine where
  "engine_init =
     \<lparr>collaborative_filter = collaborative_filter_init,
      content_filter = content_based_filter_init,
      books_catalog = [], students = [], borrowing_records = []\<rparr>"

definition load_catalog :: "(string list \<Rightarrow> real list list) \<Rightarrow> engine \<Rightarrow> book list \<Rightarrow> engine" where
  "load_catalog vectorizer e books =
     e\<lparr>books_catalog := fold (\<lambda>b d. dict_set d (book_id b) b) books (books_catalog e),
       content_filter := content_fit vectorizer (content_filter e) books\<rparr>"

definition load_students :: "engine \<Rightarrow> student list \<Rightarrow> engine" where
  "load_students e sts =
     e\<lparr>students := fold (\<lambda>s d. dict_set d (student_id s) s) sts (students e)\<rparr>"

definition dict_incr :: "(string, nat) dict \<Rightarrow> string \<Rightarrow> (string, nat) dict" where
  \<comment> \<open>\<open>d[k] += 1\<close> on a \<open>defaultdict(int)\<close>\<close>
  "dict_incr d k = dict_set d k ((case dict_get d k of None \<Rightarrow> 0 | Some c \<Rightarrow> c) + 1)"

definition count_borrows :: "borrowing_record list \<Rightarrow> (string, nat) dict" where
  "count_borrows recs = fold (\<lambda>r d. dict_incr d (rec_book_id r)) recs []"

definition max_count :: "(string, nat) dict \<Rightarrow> nat" where
  \<comment> \<open>\<open>max(borrow_counts.values()) if borrow_counts else 1\<close>\<close>
  "max_count borrow_counts =
     (case dict_values borrow_counts of [] \<Rightarrow> 1 | c # cs \<Rightarrow> fold max cs c)"

definition set_popularity :: "nat \<Rightarrow> string \<times> nat \<Rightarrow> (string, book) dict \<Rightarrow> (string, book) dict" where
  "set_popularity mx p catalog =
     (case dict_get catalog (fst p) of
        None \<Rightarrow> catalog
      | Some bk \<Rightarrow> dict_set catalog (fst p) (bk\<lparr>popularity_score := real (snd p) / real mx\<rparr>))"

definition update_popularity :: "borrowing_record list \<Rightarrow> (string, book) dict \<Rightarrow> (string, book) dict" where
  "update_popularity recs catalog =
     (let borrow_counts = count_borrows recs
      in fold (set_popularity (max_count borrow_counts)) borrow_counts catalog)"

definition load_borrowing_history ::
  "(string list \<Rightarrow> string list) \<Rightarrow> engine \<Rightarrow> borrowing_record list \<Rightarrow> engine" where
  "load_borrowing_history list_set e recs =
     e\<lparr>borrowing_records := recs,
       collaborative_filter := fit list_set (collaborative_filter e) recs,
       books_catalog := update_popularity recs (books_catalog e)\<rparr>"

subsection \<open>\<open>recommend\<close>\<close>

text \<open>
  \<open>n_recommendations\<close> is a natural number: the interface takes \<open>n \<ge> 0\<close>.
\<close>

definition get_popular_books :: "engine \<Rightarrow> nat \<Rightarrow> recommendation list" where
  "get_popular_books e n =
     map (\<lambda>bk. \<lparr>book = bk, score = popularity_score bk, strategy = ''popularity'',
                confidence = 0.5\<rparr>)
       (take n (sort_desc popularity_score (dict_values (books_catalog e))))"

definition collab_step ::
  "(string, book) dict \<Rightarrow> student \<Rightarrow> string \<times> real \<Rightarrow> recommendation list \<Rightarrow> recommendation list" where
  "collab_step catalog st p recs =
     (case dict_get catalog (fst p) of
        None \<Rightarrow> recs
      | Some bk \<Rightarrow>
          recs @ [\<lparr>book = bk, score = enhance_recommendation st bk (snd p),
                   strategy = ''collaborative'',
                   confidence = min 1 (real (length (reading_history st)) / 10)\<rparr>])"

definition content_step ::
  "(string, book) dict \<Rightarrow> student \<Rightarrow> string \<times> real \<Rightarrow> recommendation list \<Rightarrow> recommendation list" where
  "content_step catalog st p recs =
     (case dict_get catalog (fst p) of
        None \<Rightarrow> recs
      | Some bk \<Rightarrow>
          if list_ex (\<lambda>r. book_id (book r) = fst p) recs then recs
          else
            recs @ [\<lparr>book = bk, score = enhance_recommendation st bk (snd p),
                     strategy = ''content'',
                     confidence = min 1 (real (length (reading_history st)) / 5)\<rparr>])"

definition explored_genres :: "(string, book) dict \<Rightarrow> student \<Rightarrow> string list" where
  "explored_genres catalog st =
     concat (map (\<lambda>bid. case dict_get catalog bid of None \<Rightarrow> [] | Some bk \<Rightarrow> genre bk)
                 (reading_history st))"

definition new_genres :: "string list \<Rightarrow> book \<Rightarrow> string list" where
  "new_genres explored bk = filter (\<lambda>g. g \<notin> set explored) (genre bk)"

definition diversity_rec :: "book \<Rightarrow> recommendation" where
  "diversity_rec bk =
     \<lparr>book = bk, score = 0.7 + popularity_score bk * 0.3, strategy = ''diversity'',
      confidence = 0.6\<rparr>"

fun diversity_loop ::
  "student \<Rightarrow> string list \<Rightarrow> nat \<Rightarrow> book list \<Rightarrow> recommendation list \<Rightarrow> recommendation list" where
  "diversity_loop st explored n [] recs = recs"
| "diversity_loop st explored n (bk # bks) recs =
     (if book_id bk \<notin> set (reading_history st) then
        (if new_genres explored bk \<noteq> [] \<and> reading_level bk = student_reading_level st then
           (if length (recs @ [diversity_rec bk]) \<ge> n then recs @ [diversity_rec bk]
            else diversity_loop st explored n bks (recs @ [diversity_rec bk]))
         else diversity_loop st explored n bks recs)
      else diversity_loop st explored n bks recs)"

definition diversity_enhancement ::
  "(string, book) dict \<Rightarrow> student \<Rightarrow> nat \<Rightarrow> recommendation list \<Rightarrow> recommendation list" where
  "diversity_enhancement catalog st n recs =
     (if length recs < n then
        diversity_loop st (explored_genres catalog st) n (dict_values catalog) recs
      else recs)"

definition recommend :: "engine \<Rightarrow> string \<Rightarrow> nat \<Rightarrow> error + recommendation list" where
  "recommend e sid n =
     (case dict_get (students e) sid of
        None \<Rightarrow> Inr (get_popular_books e n)
      | Some st \<Rightarrow>
          (case collab_recommend (collaborative_filter e) sid (n * 2) of
             Inl err \<Rightarrow> Inl err
           | Inr collab_recs \<Rightarrow>
               (let recs1 = fold (collab_step (books_catalog e) st) (take (n div 2) collab_recs) []
                in case content_recommend (content_filter e) st (n * 2) of
                     Inl err \<Rightarrow> Inl err
                   | Inr content_recs \<Rightarrow>
                       (let recs2 = fold (content_step (books_catalog e) st)
                                      (take (n div 2) content_recs) recs1;
                            recs3 = diversity_enhancement (books_catalog e) st n recs2
                        in Inr (take n (sort_desc score recs3))))))"

subsection \<open>\<open>get_analytics\<close>\<close>

record analytics =
  total_students :: nat
  total_books :: nat
  total_borrowing_records :: nat
  average_books_per_student :: real
  genre_distribution :: "(string, nat) dict"
  most_active_readers :: "(string \<times> nat) list"
  catalog_coverage :: real

definition count_genres :: "(string, book) dict \<Rightarrow> borrowing_record list \<Rightarrow> (string, nat) dict" where
  "count_genres catalog recs =
     fold (\<lambda>r d. case dict_get catalog (rec_book_id r) of
                    None \<Rightarrow> d
                  | Some bk \<Rightarrow> fold (\<lambda>g d'. dict_incr d' g) (genre bk) d) recs []"

definition student_activity :: "borrowing_record list \<Rightarrow> (string, nat) dict" where
  "student_activity recs = fold (\<lambda>r d. dict_incr d (rec_student_id r)) recs []"

definition get_analytics :: "engine \<Rightarrow> analytics" where
  "get_analytics e =
     (let n_students = length (students e);
          n_books = length (books_catalog e);
          n_borrows = length (borrowing_records e)
      in \<lparr>total_students = n_students,
          total_books = n_books,
          total_borrowing_records = n_borrows,
          average_books_per_student =
            (if n_students > 0 then real n_borrows / real n_students else 0),
          genre_distribution = count_genres (books_catalog e) (borrowing_records e),
          most_active_readers =
            take 5 (sort_desc (\<lambda>p. real (snd p)) (student_activity (borrowing_records e))),
          catalog_coverage =
            (if n_books > 0
             then real (length (remdups (map rec_book_id (borrowing_records e)))) / real n_books
             else 0)\<rparr>)"

section \<open>The collaborative neighbours, as the specification words them\<close>

text \<open>
  A record is well rated when its rating is absent or on the 1-5 scale the dataclass
  documents. \<open>spec_similar_users\<close> follows the specification, not the code: the 5
  most similar users other than the target (all of them when there are fewer than 5),
  by cosine similarity of the matrix rows, earlier rows first among equals.
\<close>

definition well_rated :: "borrowing_record \<Rightarrow> bool" where
  "well_rated r = (case rating r of None \<Rightarrow> True | Some k \<Rightarrow> 1 \<le> k \<and> k \<le> 5)"

definition spec_similar_users :: "dataframe \<Rightarrow> string \<Rightarrow> string list" where
  "spec_similar_users m t =
     take 5 (sort_desc (\<lambda>u. cosine_similarity (df_row_values m t) (df_row_values m u))
               (filter (\<lambda>u. u \<noteq> t) (df_index m)))"

section \<open>Example data\<close>

text \<open>Small concrete inputs, used where a statement is evaluated.\<close>

definition example_book :: "string \<Rightarrow> string list \<Rightarrow> string \<Rightarrow> book" where
  "example_book bid gs lvl =
     \<lparr>book_id = bid, title = bid, author = ''author'', isbn = ''0'', genre = gs, subject = [],
      reading_level = lvl, description = ''a story about dragons'', publication_year = 2000,
      page_count = 100, language = ''English'', available_copies = 1, total_copies = 1,
      popularity_score = 0\<rparr>"

definition example_student :: "string \<Rightarrow> string \<Rightarrow> string list \<Rightarrow> student" where
  "example_student sid lvl hist =
     \<lparr>student_id = sid, grade_level = 4, student_reading_level = lvl,
      preferred_genres = [''Fantasy''], interests = [''dragons and castles''],
      reading_history = hist\<rparr>"

definition example_record :: "string \<Rightarrow> string \<Rightarrow> borrowing_record" where
  "example_record sid bid =
     \<lparr>rec_student_id = sid, rec_book_id = bid, borrow_date = 0, return_date = None,
      rating = None, completed = False\<rparr>"

definition example_vectorizer :: "string list \<Rightarrow> real list list" where
  "example_vectorizer texts = map (\<lambda>t. [1]) texts"

definition example_engine :: engine where
  "example_engine =
     load_borrowing_history remdups
       (load_students
          (load_catalog example_vectorizer engine_init [example_book ''B1'' [''Fantasy''] ''3-5''])
          [example_student ''S1'' ''3-5'' []])
       [example_record ''S2'' ''B1'']"

section \<open>The score enhancer\<close>

lemma score_boost_eq:
  "score_boost st bk =
     (if set (genre bk) \<inter> set (preferred_genres st) \<noteq> {} then 0.10 else 0)
   + (if reading_level bk = student_reading_level st then 0.05 else 0)
   + (if set (interest_keywords st) \<inter> set (description_words bk) \<noteq> {} then 0.15 else 0)"
proof -
  have g: "matched_genres st bk \<noteq> [] \<longleftrightarrow> set (genre bk) \<inter> set (preferred_genres st) \<noteq> {}"
    by (auto simp: matched_genres_def filter_empty_conv)
  have w: "filter (\<lambda>w. w \<in> set (description_words bk)) (interest_keywords st) \<noteq> []
      \<longleftrightarrow> set (interest_keywords st) \<inter> set (description_words bk) \<noteq> {}"
    by (auto simp: filter_empty_conv)
  show ?thesis unfolding score_boost_def Let_def g w by simp
qed

lemma score_boost_nonneg: "0 \<le> score_boost st bk"
  by (simp add: score_boost_eq)

lemma score_boost_le: "score_boost st bk \<le> 3 / 10"
  by (simp add: score_boost_eq)

lemma example_interest_keywords:
  "interest_keywords (example_student sid lvl hist) = [''dragons'', ''and'', ''castles'']"
  by (simp add: interest_keywords_def example_student_def py_split_def py_lower_def
      lower_char_def is_space_def)

lemma example_description_words:
  "description_words (example_book bid gs lvl) = [''a'', ''story'', ''about'', ''dragons'']"
  by (simp add: description_words_def example_book_def py_split_def py_lower_def
      lower_char_def is_space_def)

text \<open>
  C2, as the code has it. The adjusted score is \<open>min(1.0, base + boosts)\<close> with the
  boosts +0.10 (a genre of the book is a preferred genre), +0.05 (equal reading
  level) and +0.15 (an interest word is a word of the description); it is at most 1
  always, and at least the base score whenever the base score is at most 1.
\<close>

theorem enhancer_score:
  "mock_llm_enhancement st bk base_score =
     min 1 (base_score
            + (if set (genre bk) \<inter> set (preferred_genres st) \<noteq> {} then 0.10 else 0)
            + (if reading_level bk = student_reading_level st then 0.05 else 0)
            + (if set (interest_keywords st) \<inter> set (description_words bk) \<noteq> {}
               then 0.15 else 0))
   \<and> mock_llm_enhancement st bk base_score \<le> 1
   \<and> (base_score \<le> 1 \<longrightarrow> base_score \<le> mock_llm_enhancement st bk base_score)"
  using score_boost_nonneg [of st bk]
  by (simp add: mock_llm_enhancement_def score_boost_eq add.assoc)

theorem enhancer_score_witness:
  "(1/2 :: real) \<le> 1 \<and>
   mock_llm_enhancement (example_student ''S1'' ''3-5'' [])
     (example_book ''B1'' [''Fantasy''] ''3-5'') (1/2) = 4/5
   \<and> 1/2 \<le> mock_llm_enhancement (example_student ''S1'' ''3-5'' [])
              (example_book ''B1'' [''Fantasy''] ''3-5'') (1/2)"
  using enhancer_score [of "example_student ''S1'' ''3-5'' []"
      "example_book ''B1'' [''Fantasy''] ''3-5''" "1/2"]
  by (simp add: example_interest_keywords example_description_words)
     (simp add: example_student_def example_book_def)

text \<open>
  "Always at least the base score" fails above 1: a base score of 2 (the
  cold-start column sum of a book that two students borrowed) comes back as 1.
\<close>

theorem enhancer_decreases_counterexample:
  "mock_llm_enhancement (example_student ''S1'' ''3-5'' [])
     (example_book ''B1'' [''Fantasy''] ''3-5'') 2 = 1
   \<and> \<not> 2 \<le> mock_llm_enhancement (example_student ''S1'' ''3-5'' [])
                (example_book ''B1'' [''Fantasy''] ''3-5'') 2"
  using score_boost_nonneg [of "example_student ''S1'' ''3-5'' []"
      "example_book ''B1'' [''Fantasy''] ''3-5''"]
  by (simp add: mock_llm_enhancement_def)

section \<open>Dictionaries\<close>

lemma map_of_dict_set: "map_of (dict_set d k v) = (map_of d)(k \<mapsto> v)"
  by (induction d k v rule: dict_set.induct) auto

lemma dict_get_dict_set: "dict_get (dict_set d k v) k' = (if k' = k then Some v else dict_get d k')"
  by (simp add: dict_get_def map_of_dict_set)

lemma keys_dict_set: "map fst (dict_set d k v) = (if k \<in> fst ` set d then map fst d else map fst d @ [k])"
  by (induction d k v rule: dict_set.induct) auto

lemma distinct_dict_set: "distinct (map fst d) \<Longrightarrow> distinct (map fst (dict_set d k v))"
  by (simp add: keys_dict_set)

lemma find_app:
  "List.find P (xs @ ys) = (case List.find P xs of None \<Rightarrow> List.find P ys | Some x \<Rightarrow> Some x)"
  by (induction xs) auto


section \<open>The loaders\<close>




section \<open>Analytics\<close>

text \<open>
  C9, as the code has it. The average is the number of records over the number of
  students, 0 without students; the coverage is the number of distinct book ids of the
  records over the number of catalog entries, 0 for an empty catalog. Both are
  non-negative, and the coverage is at most 1 when every record's book id is a
  catalog key.
\<close>

theorem analytics_ratios:
  "average_books_per_student (get_analytics e) =
     (if students e = [] then 0
      else real (length (borrowing_records e)) / real (length (students e)))
   \<and> catalog_coverage (get_analytics e) =
     (if books_catalog e = [] then 0
      else real (card (rec_book_id ` set (borrowing_records e))) / real (length (books_catalog e)))
   \<and> 0 \<le> average_books_per_student (get_analytics e)
   \<and> 0 \<le> catalog_coverage (get_analytics e)
   \<and> (distinct (dict_keys (books_catalog e)) \<and>
        rec_book_id ` set (borrowing_records e) \<subseteq> set (dict_keys (books_catalog e))
        \<longrightarrow> catalog_coverage (get_analytics e) \<le> 1)"
proof -
  have c: "length (remdups (map rec_book_id (borrowing_records e))) = card (rec_book_id ` set (borrowing_records e))"
    by (simp add: length_remdups_card_conv)
  have le: "card (rec_book_id ` set (borrowing_records e)) \<le> length (books_catalog e)"
    if "distinct (dict_keys (books_catalog e))"
       "rec_book_id ` set (borrowing_records e) \<subseteq> set (dict_keys (books_catalog e))"
  proof -
    have "card (rec_book_id ` set (borrowing_records e)) \<le> card (set (dict_keys (books_catalog e)))"
      using that(2) by (simp add: card_mono)
    also have "\<dots> = length (books_catalog e)"
      using that(1) distinct_card [of "dict_keys (books_catalog e)"] by (simp add: dict_keys_def)
    finally show ?thesis .
  qed
  show ?thesis
    unfolding get_analytics_def Let_def c using le
    by (auto simp: divide_le_eq_1)
qed

lemma example_engine_stores:
  "map fst (books_catalog example_engine) = [''B1'']"
  "length (students example_engine) = 1"
  "map rec_book_id (borrowing_records example_engine) = [''B1'']"
  by (simp_all add: example_engine_def load_borrowing_history_def load_students_def
      load_catalog_def engine_init_def update_popularity_def count_borrows_def dict_incr_def
      dict_get_def max_count_def dict_values_def set_popularity_def example_book_def
      example_record_def)

theorem analytics_ratios_witness:
  "average_books_per_student (get_analytics example_engine) = 1
   \<and> catalog_coverage (get_analytics example_engine) \<le> 1"
  using analytics_ratios [of example_engine] example_engine_stores
  by (auto simp: dict_keys_def)

text \<open>
  Records may name books that are not in the catalog; the coverage counts them too.
  One catalog entry and records for two other book ids give a coverage of 2.
\<close>

theorem coverage_above_one_counterexample:
  "catalog_coverage (get_analytics
     (load_borrowing_history remdups
        (load_catalog example_vectorizer engine_init [example_book ''B1'' [''Fantasy''] ''3-5''])
        [example_record ''S1'' ''B2'', example_record ''S1'' ''B3''])) = 2"
  by (simp add: get_analytics_def load_borrowing_history_def load_catalog_def engine_init_def
      update_popularity_def count_borrows_def dict_incr_def dict_get_def max_count_def
      dict_values_def set_popularity_def example_book_def example_record_def)

section \<open>Popularity scores\<close>

text \<open>
  C4. \<open>load_borrowing_history\<close> assigns a popularity score only to the books of the
  records it is given. After a first history with a record for B1 and a second history
  with a record for B2 only, B1 is in no record of the loaded history and still has
  the popularity score 1 of the first load.
\<close>

theorem stale_popularity_after_reload:
  "map (\<lambda>p. (fst p, popularity_score (snd p)))
     (books_catalog
        (load_borrowing_history remdups
           (load_borrowing_history remdups
              (load_catalog example_vectorizer engine_init
                 [example_book ''B1'' [''Fantasy''] ''3-5'', example_book ''B2'' [''Mystery''] ''3-5''])
              [example_record ''S1'' ''B1''])
           [example_record ''S1'' ''B2''])) = [(''B1'', 1), (''B2'', 1)]
   \<and> map rec_book_id (borrowing_records
        (load_borrowing_history remdups
           (load_borrowing_history remdups
              (load_catalog example_vectorizer engine_init
                 [example_book ''B1'' [''Fantasy''] ''3-5'', example_book ''B2'' [''Mystery''] ''3-5''])
              [example_record ''S1'' ''B1''])
           [example_record ''S1'' ''B2''])) = [''B2'']"
  by (simp add: load_borrowing_history_def load_catalog_def engine_init_def
      update_popularity_def count_borrows_def dict_incr_def dict_get_def max_count_def
      dict_values_def set_popularity_def example_book_def example_record_def)

section \<open>Unknown students\<close>

lemma sorted_wrt_sort_desc: "sorted_wrt (\<lambda>a b. k a \<ge> k b) (sort_desc k xs)"
proof -
  have "sorted (map (\<lambda>x. - k x) (sort_key (\<lambda>x. - k x) xs))"
    by (rule sorted_sort_key)
  then show ?thesis
    by (simp add: sort_desc_def sorted_map)
qed

lemma sorted_wrt_take: "sorted_wrt P xs \<Longrightarrow> sorted_wrt P (take n xs)"
  by (metis append_take_drop_id sorted_wrt_append)

text \<open>
  C6. For a student id that is not in the student store, \<open>recommend\<close> returns
  (no error) the first \<open>n\<close> catalog books in descending order of popularity score,
  each with strategy "popularity", its popularity score as score and confidence 0.5.
\<close>

theorem unknown_student_popularity:
  assumes "dict_get (students e) sid = None"
  shows "\<exists>recs. recommend e sid n = Inr recs
     \<and> map book recs = take n (sort_desc popularity_score (dict_values (books_catalog e)))
     \<and> list_all (\<lambda>r. strategy r = ''popularity'' \<and> score r = popularity_score (book r)
                      \<and> confidence r = 0.5) recs
     \<and> sorted_wrt (\<lambda>a b. score a \<ge> score b) recs"
proof -
  let ?bs = "take n (sort_desc popularity_score (dict_values (books_catalog e)))"
  have s: "sorted_wrt (\<lambda>a b. popularity_score a \<ge> popularity_score b) ?bs"
    by (rule sorted_wrt_take) (rule sorted_wrt_sort_desc)
  have "recommend e sid n = Inr (get_popular_books e n)"
    using assms by (simp add: recommend_def)
  moreover have "map book (get_popular_books e n) = ?bs"
    by (simp add: get_popular_books_def comp_def)
  moreover have "list_all (\<lambda>r. strategy r = ''popularity'' \<and> score r = popularity_score (book r)
                      \<and> confidence r = 0.5) (get_popular_books e n)"
    by (simp add: get_popular_books_def list_all_iff)
  moreover have "sorted_wrt (\<lambda>a b. score a \<ge> score b) (get_popular_books e n)"
    using s by (simp add: get_popular_books_def sorted_wrt_map)
  ultimately show ?thesis by blast
qed

lemma example_engine_students: "dict_get (students example_engine) ''S9'' = None"
  by (simp add: example_engine_def load_borrowing_history_def load_students_def
      load_catalog_def engine_init_def dict_get_def example_student_def)

theorem unknown_student_popularity_witness:
  "dict_get (students example_engine) ''S9'' = None
   \<and> (\<exists>recs. recommend example_engine ''S9'' 3 = Inr recs
        \<and> list_all (\<lambda>r. strategy r = ''popularity'' \<and> score r = popularity_score (book r)
                      \<and> confidence r = 0.5) recs)"
  using unknown_student_popularity [OF example_engine_students, of 3] example_engine_students
  by blast

section \<open>Diversity fallback\<close>





section \<open>The user-item matrix\<close>

lemma fill_matrix_Cons:
  "fill_matrix (r # recs) m =
     fill_matrix recs (df_loc_set m (rec_student_id r) (rec_book_id r) (record_value r))"
  by (simp add: fill_matrix_def)

lemma df_cell_loc_set:
  "df_cell (df_loc_set m u b v) s c = (if s = u \<and> c = b then v else df_cell m s c)"
  by (simp add: df_loc_set_def)

lemma fill_matrix_labels:
  "df_index (fill_matrix recs m) = df_index m" "df_columns (fill_matrix recs m) = df_columns m"
  by (induction recs arbitrary: m) (simp_all add: fill_matrix_Cons, simp_all add: fill_matrix_def df_loc_set_def)

lemma fill_matrix_cell:
  "df_cell (fill_matrix recs m) s b =
     (case List.find (\<lambda>r. rec_student_id r = s \<and> rec_book_id r = b) (rev recs) of
        Some r \<Rightarrow> record_value r | None \<Rightarrow> df_cell m s b)"
proof (induction recs arbitrary: m)
  case Nil
  then show ?case by (simp add: fill_matrix_def)
next
  case (Cons r recs)
  show ?case
    by (simp add: fill_matrix_Cons Cons.IH find_app df_cell_loc_set split: option.splits)
qed

lemma find_rev_last:
  "filter P xs \<noteq> [] \<Longrightarrow> List.find P (rev xs) = Some (last (filter P xs))"
  by (induction xs rule: rev_induct) auto

text \<open>
  C10. When records share a (student id, book id) pair, the cell of the fitted matrix
  is the weight of the last of them in input order.
\<close>

theorem fit_last_record_wins:
  assumes "set_order list_set"
    and "filter (\<lambda>r. rec_student_id r = s \<and> rec_book_id r = b) recs \<noteq> []"
  shows "\<exists>m. user_item_matrix (fit list_set cf recs) = Some m
     \<and> df_loc m s b =
         Inr (record_value (last (filter (\<lambda>r. rec_student_id r = s \<and> rec_book_id r = b) recs)))"
proof -
  from assms(2) obtain r where r: "r \<in> set recs" "rec_student_id r = s" "rec_book_id r = b"
    by (auto simp: filter_empty_conv)
  then have "s \<in> set (list_set (map rec_student_id recs))" "b \<in> set (list_set (map rec_book_id recs))"
    using assms(1) by (auto simp: set_order_def)
  then show ?thesis
    by (simp add: fit_def Let_def df_loc_def fill_matrix_labels fill_matrix_cell
        find_rev_last [OF assms(2)])
qed

lemma set_order_remdups: "set_order remdups"
  by (simp add: set_order_def)

theorem fit_last_record_wins_witness:
  "set_order remdups \<and>
   (\<exists>m. user_item_matrix (fit remdups collaborative_filter_init
          [example_record ''S1'' ''B1'',
           (example_record ''S1'' ''B1'')\<lparr>rating := Some 4\<rparr>]) = Some m
     \<and> df_loc m ''S1'' ''B1'' = Inr (4 / 5))"
  using fit_last_record_wins [OF set_order_remdups, of "''S1''" "''B1''"
      "[example_record ''S1'' ''B1'', (example_record ''S1'' ''B1'')\<lparr>rating := Some 4\<rparr>]"
      collaborative_filter_init] set_order_remdups
  by (simp add: example_record_def record_value_def)

section \<open>\<open>recommend\<close> on a known student\<close>

lemma example_engine_parts:
  "dict_get (students example_engine) ''S1'' = Some (example_student ''S1'' ''3-5'' [])"
  "books_catalog example_engine =
     [(''B1'', (example_book ''B1'' [''Fantasy''] ''3-5'')\<lparr>popularity_score := 1\<rparr>)]"
  "user_item_matrix (collaborative_filter example_engine) =
     Some \<lparr>df_index = [''S2''], df_columns = [''B1''],
           df_cell = (\<lambda>u b. 0)(''S2'' := (\<lambda>b. 0)(''B1'' := 1))\<rparr>"
  "book_ids (content_filter example_engine) = [''B1'']"
  by (simp_all add: example_engine_def load_borrowing_history_def load_students_def
      load_catalog_def engine_init_def update_popularity_def count_borrows_def dict_incr_def
      dict_get_def max_count_def dict_values_def set_popularity_def example_book_def
      example_record_def example_student_def fit_def fill_matrix_def df_loc_set_def
      record_value_def content_fit_def collaborative_filter_init_def)

lemma example_collab: "collab_recommend (collaborative_filter example_engine) ''S1'' 4 = Inr [(''B1'', 1)]"
  by (simp add: collab_recommend_def example_engine_parts nlargest_def sort_desc_def
      df_sum_axis0_def df_column_values_def)

lemma example_content: "content_recommend (content_filter example_engine) (example_student ''S1'' ''3-5'' []) 4 = Inr []"
  by (simp add: content_recommend_def example_student_def split: option.splits)

text \<open>
  C1. The catalog holds one book B1, student S1 (reading level of B1, empty history)
  is known, and the history holds one record of another student for B1. Then
  \<open>recommend(S1, 2)\<close> returns B1 twice: once from the collaborative cold-start
  candidates, and once more from the diversity step, which does not look at the books
  already in the list.
\<close>

theorem recommend_duplicate_book:
  "map_sum id (map (\<lambda>r. (book_id (book r), strategy r, score r, confidence r)))
     (recommend example_engine ''S1'' 2)
   = Inr [(''B1'', ''collaborative'', 1, 0), (''B1'', ''diversity'', 1, 3 / 5)]"
proof -
  have e: "enhance_recommendation (example_student ''S1'' ''3-5'' []) bk 1 = 1" for bk
    using score_boost_nonneg [of "example_student ''S1'' ''3-5'' []" bk]
    by (simp add: enhance_recommendation_def mock_llm_enhancement_def)
  have h: "reading_history (example_student ''S1'' ''3-5'' []) = []"
     "student_reading_level (example_student ''S1'' ''3-5'' []) = ''3-5''"
    by (simp_all add: example_student_def)
  have g: "dict_get (books_catalog example_engine) ''B1'' =
       Some ((example_book ''B1'' [''Fantasy''] ''3-5'')\<lparr>popularity_score := 1\<rparr>)"
    by (simp add: example_engine_parts dict_get_def)
  have r: "recommend example_engine ''S1'' 2 =
      Inr [\<lparr>book = (example_book ''B1'' [''Fantasy''] ''3-5'')\<lparr>popularity_score := 1\<rparr>,
             score = 1, strategy = ''collaborative'', confidence = 0\<rparr>,
           diversity_rec ((example_book ''B1'' [''Fantasy''] ''3-5'')\<lparr>popularity_score := 1\<rparr>)]"
    by (simp add: recommend_def example_engine_parts(1) example_collab example_content
        collab_step_def g e h)
       (simp add: example_engine_parts(2) diversity_enhancement_def dict_values_def
        explored_genres_def new_genres_def h sort_desc_def diversity_rec_def example_book_def)
  show ?thesis
    by (simp add: r diversity_rec_def example_book_def)
qed

text \<open>
  The length bound of the same sentence holds: whatever \<open>recommend\<close> returns has
  at most \<open>n\<close> entries.
\<close>

lemma recommend_at_most_n: "recommend e sid n = Inr recs \<Longrightarrow> length recs \<le> n"
  by (auto simp: recommend_def get_popular_books_def Let_def split: option.splits sum.splits)

text \<open>
  A second defect on the same path: \<open>fit\<close> keeps the similarity matrix of an earlier
  history when the new history has a single student, and looking that student up in
  the old matrix raises \<open>KeyError\<close>, also for \<open>n = 0\<close>.
\<close>

lemma recommend_stale_similarity:
  "recommend
     (load_borrowing_history remdups
        (load_borrowing_history remdups
           (load_students engine_init [example_student ''S3'' ''3-5'' []])
           [example_record ''S1'' ''B1'', example_record ''S2'' ''B2''])
        [example_record ''S3'' ''B1'']) ''S3'' 0 = Inl KeyError"
  by (simp add: recommend_def load_borrowing_history_def load_students_def engine_init_def
      dict_get_def example_student_def example_record_def fit_def Let_def
      collaborative_filter_init_def collab_recommend_def fill_matrix_def df_loc_set_def
      df_getitem_def user_similarity_def)

section \<open>Content-based recommendations\<close>


lemma list_index_less: "x \<in> set ys \<Longrightarrow> list_index ys x < length ys"
  by (induction ys) auto

lemma nth_list_index: "x \<in> set ys \<Longrightarrow> ys ! list_index ys x = x"
  by (induction ys) auto

lemma history_indices_eq:
  "history_indices ids h = map (list_index ids) (filter (\<lambda>b. b \<in> set ids) h)"
  by (induction h) auto

lemma select_rows_eq:
  "list_all (\<lambda>i. i < length feats) idxs \<Longrightarrow> select_rows feats idxs = Inr (map ((!) feats) idxs)"
  by (induction idxs) auto

lemma unread_scores_eq:
  "length scs \<le> length ids \<Longrightarrow>
   unread_scores hist ids scs = Inr (filter (\<lambda>p. fst p \<notin> set hist) (zip ids scs))"
  by (induction hist ids scs rule: unread_scores.induct) auto

lemma vec_sum_length:
  "rows \<noteq> [] \<Longrightarrow> list_all (\<lambda>r. length r = d) rows \<Longrightarrow> length (vec_sum rows) = d"
  by (induction rows rule: vec_sum.induct) auto

lemma vec_sum_nth:
  "rows \<noteq> [] \<Longrightarrow> list_all (\<lambda>r. length r = d) rows \<Longrightarrow> j < d \<Longrightarrow>
   vec_sum rows ! j = sum_list (map (\<lambda>r. r ! j) rows)"
proof (induction rows rule: vec_sum.induct)
  case 1
  then show ?case by simp
next
  case (2 r)
  then show ?case by simp
next
  case (3 r r' rs)
  then have "length (vec_sum (r' # rs)) = d"
    using vec_sum_length [of "r' # rs" d] by simp
  with 3 show ?case by simp
qed

lemma mean_axis0_nth:
  "rows \<noteq> [] \<Longrightarrow> list_all (\<lambda>r. length r = d) rows \<Longrightarrow> j < d \<Longrightarrow>
   mean_axis0 rows ! j = sum_list (map (\<lambda>r. r ! j) rows) / real (length rows)"
  by (simp add: mean_axis0_def vec_sum_length vec_sum_nth)

text \<open>
  C8. \<open>ContentBasedFilter.recommend\<close> returns the empty list when the model has no
  feature matrix, when the history is empty, or when none of the last 10 history ids
  is a fitted book id. Otherwise (the matrix having one row per fitted book) the
  profile is the mean of the feature rows of the fitted ids among the last 10 history
  ids, every fitted book gets the cosine similarity of its row to the profile, the
  books of the whole history are dropped, and the first \<open>n\<close> in descending order
  of similarity are returned. \<open>last_n 10\<close> is the final segment of the history of
  length at most 10, and the mean is the column-wise arithmetic mean.
\<close>

theorem content_recommend_spec:
  "(book_features cb = None \<or> reading_history st = []
      \<or> set (last_n 10 (reading_history st)) \<inter> set (book_ids cb) = {}
    \<longrightarrow> content_recommend cb st n = Inr [])
   \<and> (book_features cb = Some feats \<and> length feats = length (book_ids cb)
        \<and> reading_history st \<noteq> []
        \<and> set (last_n 10 (reading_history st)) \<inter> set (book_ids cb) \<noteq> {}
    \<longrightarrow> content_recommend cb st n =
          Inr (take n (sort_desc snd
                 (filter (\<lambda>p. fst p \<notin> set (reading_history st))
                    (zip (book_ids cb)
                       (map (cosine_similarity
                               (mean_axis0
                                  (map (\<lambda>b. feats ! list_index (book_ids cb) b)
                                     (filter (\<lambda>b. b \<in> set (book_ids cb))
                                        (last_n 10 (reading_history st))))))
                          feats))))))
   \<and> length (last_n 10 (reading_history st)) = min 10 (length (reading_history st))
   \<and> (\<exists>older. reading_history st = older @ last_n 10 (reading_history st))
   \<and> (rows \<noteq> [] \<and> list_all (\<lambda>r. length r = d) rows \<and> j < d
        \<longrightarrow> mean_axis0 rows ! j = sum_list (map (\<lambda>r. r ! j) rows) / real (length rows))"
proof -
  let ?h = "last_n 10 (reading_history st)"
  let ?ids = "book_ids cb"
  have e: "filter (\<lambda>b. b \<in> set ?ids) ?h = [] \<longleftrightarrow> set ?h \<inter> set ?ids = {}"
    by (auto simp: filter_empty_conv)
  have 1: "content_recommend cb st n = Inr []"
    if "book_features cb = None \<or> reading_history st = [] \<or> set ?h \<inter> set ?ids = {}"
    using that e
    by (auto simp: content_recommend_def Let_def history_indices_eq split: option.splits)
  have 2: "content_recommend cb st n =
          Inr (take n (sort_desc snd
                 (filter (\<lambda>p. fst p \<notin> set (reading_history st))
                    (zip ?ids
                       (map (cosine_similarity
                               (mean_axis0
                                  (map (\<lambda>b. feats ! list_index ?ids b)
                                     (filter (\<lambda>b. b \<in> set ?ids) ?h))))
                          feats)))))"
    if f: "book_features cb = Some feats" and l: "length feats = length ?ids"
      and h: "reading_history st \<noteq> []" and i: "set ?h \<inter> set ?ids \<noteq> {}"
  proof -
    have a: "list_all (\<lambda>i. i < length feats) (history_indices ?ids ?h)"
      by (simp add: history_indices_eq list_all_iff l list_index_less)
    have b: "history_indices ?ids ?h \<noteq> []"
      using i e by (simp add: history_indices_eq)
    show ?thesis
      using b h
      by (simp add: content_recommend_def f Let_def select_rows_eq [OF a] unread_scores_eq l)
         (simp add: history_indices_eq comp_def)
  qed
  have 3: "length ?h = min 10 (length (reading_history st))"
    by (simp add: last_n_def)
  have 4: "\<exists>older. reading_history st = older @ ?h"
    unfolding last_n_def by (metis append_take_drop_id)
  show ?thesis
    using 1 2 3 4 mean_axis0_nth [of rows d j] by blast
qed


lemma cosine_unit: "cosine_similarity [1] [1] = 1"
  by (simp add: cosine_similarity_def l2_normalize_def l2_norm_def dot_def)

lemma example_content_filter:
  "book_features (content_fit example_vectorizer content_based_filter_init
      [example_book ''A'' [''Fantasy''] ''3-5'', example_book ''B'' [''Mystery''] ''3-5'']) = Some [[1], [1]]"
  "book_ids (content_fit example_vectorizer content_based_filter_init
      [example_book ''A'' [''Fantasy''] ''3-5'', example_book ''B'' [''Mystery''] ''3-5'']) = [''A'', ''B'']"
  by (simp_all add: content_fit_def example_vectorizer_def example_book_def)

theorem content_recommend_spec_witness:
  "book_features (content_fit example_vectorizer content_based_filter_init
      [example_book ''A'' [''Fantasy''] ''3-5'', example_book ''B'' [''Mystery''] ''3-5'']) = Some [[1], [1]]
   \<and> reading_history (example_student ''S1'' ''3-5'' [''A'']) \<noteq> []
   \<and> set (last_n 10 (reading_history (example_student ''S1'' ''3-5'' [''A''])))
       \<inter> set [''A'', ''B''] \<noteq> {}
   \<and> content_recommend (content_fit example_vectorizer content_based_filter_init
      [example_book ''A'' [''Fantasy''] ''3-5'', example_book ''B'' [''Mystery''] ''3-5''])
      (example_student ''S1'' ''3-5'' [''A'']) 5 = Inr [(''B'', 1)]"
  using content_recommend_spec [where cb = "content_fit example_vectorizer content_based_filter_init
      [example_book ''A'' [''Fantasy''] ''3-5'', example_book ''B'' [''Mystery''] ''3-5'']"
      and st = "example_student ''S1'' ''3-5'' [''A'']" and feats = "[[1], [1]]" and n = 5
      and rows = "[[1]]" and d = 1 and j = 0]
  by (simp add: example_content_filter example_student_def last_n_def mean_axis0_def
      cosine_unit sort_desc_def)

section \<open>Cosine similarity\<close>

lemma dot_commute: "dot u v = dot v u"
proof -
  have "map2 (*) u v = map2 (*) v u"
    by (induction u v rule: list_induct2') (auto simp: mult.commute)
  then show ?thesis by (simp add: dot_def)
qed

lemma cosine_similarity_commute: "cosine_similarity u v = cosine_similarity v u"
  by (simp add: cosine_similarity_def dot_commute)

lemma dot_self_nonneg: "0 \<le> dot v v"
  unfolding dot_def by (induction v) auto

lemma dot_self_zero: "dot v v = 0 \<longleftrightarrow> list_all (\<lambda>x. x = 0) v"
proof (induction v)
  case Nil
  then show ?case by (simp add: dot_def)
next
  case (Cons x v)
  have "0 \<le> dot v v" by (rule dot_self_nonneg)
  moreover have "dot (x # v) (x # v) = x * x + dot v v" by (simp add: dot_def)
  ultimately show ?case
    using Cons by (auto simp: add_nonneg_eq_0_iff)
qed

lemma l2_norm_zero: "l2_norm v = 0 \<longleftrightarrow> list_all (\<lambda>x. x = 0) v"
  by (simp add: l2_norm_def dot_self_zero)

lemma l2_norm_nonneg: "0 \<le> l2_norm v"
  by (simp add: l2_norm_def dot_self_nonneg)

lemma dot_scale: "dot (map (\<lambda>x. x / c) u) (map (\<lambda>x. x / d) v) = dot u v / (c * d)"
proof -
  have "sum_list (map2 (*) (map (\<lambda>x. x / c) u) (map (\<lambda>x. x / d) v)) = sum_list (map2 (*) u v) / (c * d)"
    by (induction u v rule: list_induct2') (auto simp: add_divide_distrib)
  then show ?thesis by (simp add: dot_def)
qed

lemma dot_normalize_self: "l2_norm v \<noteq> 0 \<Longrightarrow> dot (l2_normalize v) (l2_normalize v) = 1"
proof -
  assume n: "l2_norm v \<noteq> 0"
  have "l2_norm v * l2_norm v = dot v v"
    by (simp add: l2_norm_def dot_self_nonneg)
  with n show ?thesis
    by (simp add: l2_normalize_def dot_scale l2_norm_def)
qed

lemma length_l2_normalize: "length (l2_normalize v) = length v"
  by (simp add: l2_normalize_def)

lemma dot_diff:
  "length a = length b \<Longrightarrow>
   sum_list (map2 (\<lambda>x y. (x - y) * (x - y)) a b) = dot a a + dot b b - 2 * dot a b"
  by (induction a b rule: list_induct2) (auto simp: dot_def algebra_simps)

lemma sum_squares_nonneg: "0 \<le> sum_list (map2 (\<lambda>x y. (x - y) * (x - y)) a (b :: real list))"
  by (induction a b rule: list_induct2') auto

lemma sum_squares_zero:
  "length a = length b \<Longrightarrow> sum_list (map2 (\<lambda>x y. (x - y) * (x - y)) a (b :: real list)) = 0 \<Longrightarrow> a = b"
proof (induction a b rule: list_induct2)
  case Nil
  then show ?case by simp
next
  case (Cons x xs y ys)
  have "0 \<le> sum_list (map2 (\<lambda>x y. (x - y) * (x - y)) xs ys)" by (rule sum_squares_nonneg)
  with Cons.prems have "(x - y) * (x - y) = 0" "sum_list (map2 (\<lambda>x y. (x - y) * (x - y)) xs ys) = 0"
    by (auto simp: add_nonneg_eq_0_iff)
  with Cons.IH show ?case by simp
qed

lemma unit_dot_le:
  assumes "length a = length b" "dot a a = 1" "dot b b = 1"
  shows "dot a b \<le> 1" and "dot a b = 1 \<Longrightarrow> a = b"
proof -
  have e: "sum_list (map2 (\<lambda>x y. (x - y) * (x - y)) a b) = 2 - 2 * dot a b"
    using dot_diff [OF assms(1)] assms(2,3) by simp
  show "dot a b \<le> 1"
    using sum_squares_nonneg [of a b] e by simp
  show "a = b" if "dot a b = 1"
    using sum_squares_zero [OF assms(1)] e that by simp
qed

lemma cosine_le_one:
  assumes "length u = length v" "l2_norm u \<noteq> 0" "l2_norm v \<noteq> 0"
  shows "cosine_similarity u v \<le> 1"
  unfolding cosine_similarity_def
  using assms by (intro unit_dot_le(1)) (simp_all add: length_l2_normalize dot_normalize_self)

lemma cosine_self: "l2_norm v \<noteq> 0 \<Longrightarrow> cosine_similarity v v = 1"
  by (simp add: cosine_similarity_def dot_normalize_self)

lemma cosine_one_normalize:
  assumes "length u = length v" "l2_norm u \<noteq> 0" "l2_norm v \<noteq> 0" "cosine_similarity u v = 1"
  shows "l2_normalize u = l2_normalize v"
  using assms unfolding cosine_similarity_def
  by (intro unit_dot_le(2)) (simp_all add: length_l2_normalize dot_normalize_self)

lemma cosine_one_support:
  assumes "length u = length v" "l2_norm u \<noteq> 0" "l2_norm v \<noteq> 0" "cosine_similarity u v = 1"
    and "i < length u" "u ! i > 0"
  shows "v ! i > 0"
proof -
  have "l2_normalize u ! i = l2_normalize v ! i"
    using cosine_one_normalize [OF assms(1-4)] by simp
  then have "u ! i / l2_norm u = v ! i / l2_norm v"
    using assms by (simp add: l2_normalize_def)
  moreover have "0 < l2_norm u" "0 < l2_norm v"
    using assms(2,3) l2_norm_nonneg [of u] l2_norm_nonneg [of v] by simp_all
  ultimately show ?thesis
    using assms(6) by (metis divide_pos_pos zero_less_divide_iff not_less_iff_gr_or_eq)
qed

section \<open>Accumulating in a dictionary\<close>

lemma dict_get_dict_add:
  "dict_get (dict_add d k v) k' =
     (if k' = k then Some ((case dict_get d k of None \<Rightarrow> 0 | Some x \<Rightarrow> x) + v) else dict_get d k')"
  by (simp add: dict_add_def dict_get_dict_set)

lemma keys_dict_add:
  "fst ` set (dict_add d k v) = insert k (fst ` set d)"
proof -
  have "set (map fst (dict_add d k v)) = insert k (set (map fst d))"
    unfolding dict_add_def keys_dict_set by auto
  then show ?thesis by simp
qed

lemma dict_get_Nil: "dict_get [] k = None"
  by (simp add: dict_get_def)

lemma distinct_dict_add: "distinct (map fst d) \<Longrightarrow> distinct (map fst (dict_add d k v))"
  by (simp add: dict_add_def distinct_dict_set)

lemma fold_dict_add_keys:
  "fst ` set (fold (\<lambda>p d. dict_add d (fst p) (snd p)) xs d) = fst ` set d \<union> fst ` set xs"
  by (induction xs arbitrary: d) (simp_all add: keys_dict_add)

lemma fold_dict_add_distinct:
  "distinct (map fst d) \<Longrightarrow> distinct (map fst (fold (\<lambda>p d. dict_add d (fst p) (snd p)) xs d))"
  by (induction xs arbitrary: d) (auto simp: distinct_dict_add)

lemma fold_dict_add_get:
  "dict_get (fold (\<lambda>p d. dict_add d (fst p) (snd p)) xs d) k =
     (if k \<in> fst ` set xs
      then Some ((case dict_get d k of None \<Rightarrow> 0 | Some x \<Rightarrow> x)
                 + sum_list (map snd (filter (\<lambda>p. fst p = k) xs)))
      else dict_get d k)"
proof (induction xs arbitrary: d)
  case Nil
  then show ?case by simp
next
  case (Cons p xs)
  have z: "sum_list (map snd (filter (\<lambda>q. fst q = k) xs)) = 0" if "k \<notin> fst ` set xs"
  proof -
    have "filter (\<lambda>q. fst q = k) xs = []"
      using that by (auto simp: filter_empty_conv)
    then show ?thesis by simp
  qed
  show ?case
    using z by (auto simp: Cons.IH dict_get_dict_add split: option.splits)
qed

lemma fold_dict_add_value:
  assumes "(k, v) \<in> set (fold (\<lambda>p d. dict_add d (fst p) (snd p)) xs [])"
  shows "v = sum_list (map snd (filter (\<lambda>p. fst p = k) xs))"
proof -
  let ?acc = "fold (\<lambda>p d. dict_add d (fst p) (snd p)) xs []"
  have "distinct (map fst ?acc)" by (rule fold_dict_add_distinct) simp
  with assms have "dict_get ?acc k = Some v" by (simp add: dict_get_def)
  moreover have "k \<in> fst ` set xs"
    using assms fold_dict_add_keys [of xs "[]"] by force
  ultimately show ?thesis
    by (simp add: fold_dict_add_get dict_get_Nil)
qed

section \<open>The aggregation loops\<close>

lemma aggregate_books_eq:
  assumes "t \<in> set (df_index m)" "list_all (\<lambda>p. fst p \<in> set (df_columns m)) items"
  shows "aggregate_books m t s items recs =
     Inr (fold (\<lambda>p d. dict_add d (fst p) (snd p))
            (map (\<lambda>p. (fst p, snd p * s)) (filter (\<lambda>p. df_cell m t (fst p) = 0) items)) recs)"
  using assms
  by (induction items arbitrary: recs) (auto simp: df_loc_def)

lemma aggregate_users_eq:
  assumes "t \<in> set (df_index m)" "list_all (\<lambda>u. u \<in> set (df_index m)) users"
    and "df_index s = df_index m" "df_columns s = df_index m"
  shows "aggregate_users m s t users recs =
     Inr (fold (\<lambda>p d. dict_add d (fst p) (snd p))
            (concat (map (\<lambda>u. map (\<lambda>p. (fst p, snd p * df_cell s t u))
                                (filter (\<lambda>p. df_cell m t (fst p) = 0)
                                   (filter (\<lambda>p. snd p > 0)
                                      (map (\<lambda>b. (b, df_cell m u b)) (df_columns m)))))
                         users))
            recs)"
  using assms(2)
proof (induction users arbitrary: recs)
  case Nil
  then show ?case by simp
next
  case (Cons u users)
  have a: "list_all (\<lambda>p. fst p \<in> set (df_columns m))
             (filter (\<lambda>p. snd p > 0) (map (\<lambda>b. (b, df_cell m u b)) (df_columns m)))"
    by (auto simp: list_all_iff)
  show ?case
    using Cons assms(1,3,4)
    by (simp add: df_loc_def df_loc_row_def aggregate_books_eq [OF assms(1) a])
qed

section \<open>Neighbours\<close>

lemma concat_take_skip:
  "list_all (\<lambda>a. c a = []) as \<Longrightarrow>
   concat (map c (take n (as @ bs))) = concat (map c (take (n - length as) bs))"
  by (induction as arbitrary: n) (auto simp: take_Cons' )

lemma sort_desc_map:
  "sort_desc snd (map (\<lambda>u. (u, f u)) us) = map (\<lambda>u. (u, f u)) (sort_desc f us)"
proof -
  have i: "insort_key (\<lambda>p. - snd p) (u, f u) (map (\<lambda>u. (u, f u)) ys)
        = map (\<lambda>u. (u, f u)) (insort_key (\<lambda>x. - f x) u ys)" for u ys
    by (induction ys) auto
  show ?thesis
    unfolding sort_desc_def by (induction us) (auto simp: i)
qed

lemma neighbours_contribute_alike:
  fixes f :: "string \<Rightarrow> real"
  assumes d: "distinct us" and t: "t \<in> set us"
    and mx: "list_all (\<lambda>u. f u \<le> f t) us"
    and c: "list_all (\<lambda>u. f u = f t \<longrightarrow> c u = []) us"
  shows "concat (map c (tl (take 6 (sort_desc f us))))
       = concat (map c (take 5 (sort_desc f (filter (\<lambda>u. u \<noteq> t) us))))"
proof -
  let ?l = "sort_desc f us"
  have dl: "distinct ?l" and sl: "set ?l = set us"
    using d by (simp_all add: sort_desc_def)
  have so: "sorted (map (\<lambda>x. - f x) ?l)"
    by (simp add: sort_desc_def)
  from t sl obtain as bs where l: "?l = as @ t # bs"
    by (metis split_list)
  have nt: "t \<notin> set as" "t \<notin> set bs"
    using dl l by auto
  have "\<forall>a\<in>set as. f t \<le> f a"
    using so l by (auto simp: sorted_append)
  moreover have "\<forall>a\<in>set as. f a \<le> f t \<and> (f a = f t \<longrightarrow> c a = [])"
    using mx c sl l by (auto simp: list_all_iff)
  ultimately have ca: "list_all (\<lambda>a. c a = []) as"
    by (auto simp: list_all_iff intro: antisym)
  have ct: "c t = []"
    using c t by (auto simp: list_all_iff)
  have f: "sort_desc f (filter (\<lambda>u. u \<noteq> t) us) = as @ bs"
  proof -
    have "sort_desc f (filter (\<lambda>u. u \<noteq> t) us) = filter (\<lambda>u. u \<noteq> t) ?l"
      by (simp add: sort_desc_def filter_sort)
    also have "\<dots> = as @ bs"
    proof -
      have "filter (\<lambda>u. u \<noteq> t) as = as" "filter (\<lambda>u. u \<noteq> t) bs = bs"
        using nt by (simp_all add: filter_id_conv) blast+
      then show ?thesis by (simp add: l)
    qed
    finally show ?thesis .
  qed
  have "concat (map c (tl (take 6 (as @ t # bs)))) = concat (map c (take 5 (as @ bs)))"
  proof (cases as)
    case Nil
    then show ?thesis by (simp add: take_Cons')
  next
    case (Cons a as')
    have 1: "list_all (\<lambda>a. c a = []) (as' @ [t])"
      using ca ct Cons by simp
    have "tl (take 6 (as @ t # bs)) = take 5 ((as' @ [t]) @ bs)"
      using Cons by (simp add: take_Cons')
    then have "concat (map c (tl (take 6 (as @ t # bs)))) = concat (map c (take (5 - length (as' @ [t])) bs))"
      using concat_take_skip [OF 1] by simp
    also have "\<dots> = concat (map c (take (5 - length as) bs))"
      using Cons by simp
    also have "\<dots> = concat (map c (take 5 (as @ bs)))"
      using concat_take_skip [OF ca] by simp
    finally show ?thesis .
  qed
  then show ?thesis
    using l f by simp
qed

section \<open>The fitted state\<close>

lemma record_value_nonzero: "record_value r \<noteq> 0"
  by (simp add: record_value_def split: option.splits)

lemma record_value_pos: "well_rated r \<Longrightarrow> 0 < record_value r"
  by (auto simp: record_value_def well_rated_def split: option.splits)

lemma find_rev_None: "List.find P (rev xs) = None \<longleftrightarrow> filter P xs = []"
  by (induction xs rule: rev_induct) auto

lemma find_Some_mem: "List.find P xs = Some x \<Longrightarrow> x \<in> set xs \<and> P x"
  by (induction xs) (auto split: if_splits)

lemma fill_matrix_nonzero:
  "df_cell (fill_matrix recs \<lparr>df_index = us, df_columns = bs, df_cell = (\<lambda>u b. 0)\<rparr>) u b \<noteq> 0
   \<longleftrightarrow> (\<exists>r\<in>set recs. rec_student_id r = u \<and> rec_book_id r = b)"
proof (cases "List.find (\<lambda>r. rec_student_id r = u \<and> rec_book_id r = b) (rev recs)")
  case None
  then have "filter (\<lambda>r. rec_student_id r = u \<and> rec_book_id r = b) recs = []"
    by (simp add: find_rev_None)
  then show ?thesis
    using None by (auto simp: fill_matrix_cell filter_empty_conv)
next
  case (Some r)
  then have "r \<in> set recs \<and> rec_student_id r = u \<and> rec_book_id r = b"
    using find_Some_mem [OF Some] by simp
  then show ?thesis
    using Some by (auto simp: fill_matrix_cell record_value_nonzero)
qed

lemma fill_matrix_nonneg:
  assumes "list_all well_rated recs"
  shows "0 \<le> df_cell (fill_matrix recs \<lparr>df_index = us, df_columns = bs, df_cell = (\<lambda>u b. 0)\<rparr>) u b"
proof (cases "List.find (\<lambda>r. rec_student_id r = u \<and> rec_book_id r = b) (rev recs)")
  case None
  then show ?thesis by (simp add: fill_matrix_cell)
next
  case (Some r)
  then have "r \<in> set recs" using find_Some_mem [OF Some] by simp
  then have "0 < record_value r"
    using assms by (auto simp: list_all_iff intro: record_value_pos)
  then show ?thesis using Some by (simp add: fill_matrix_cell)
qed

lemma sum_filter_concat:
  "sum_list (map snd (filter P (concat xss))) = sum_list (map (\<lambda>xs. sum_list (map snd (filter P xs))) xss)"
  by (induction xss) auto

lemma contribution_sum:
  "distinct cols \<Longrightarrow>
   sum_list (map snd (filter (\<lambda>p. fst p = b)
      (map (\<lambda>p. (fst p, snd p * s)) (filter q (map (\<lambda>c. (c, w c)) cols)))))
   = (if b \<in> set cols \<and> q (b, w b) then w b * s else (0 :: real))"
proof (induction cols)
  case Nil
  then show ?case by simp
next
  case (Cons c cols)
  then show ?case by auto
qed

lemma nonzero_row:
  assumes "b \<in> set cols" "w b \<noteq> (0 :: real)"
  shows "l2_norm (map w cols) \<noteq> 0"
  using assms by (auto simp: l2_norm_zero list_all_iff)

lemma contribution_keys:
  assumes nn: "\<And>u b. 0 \<le> df_cell m u b"
  shows "fst ` set (concat (map (\<lambda>u. map (\<lambda>p. (fst p, snd p * s u))
                  (filter (\<lambda>p. df_cell m t (fst p) = 0)
                     (filter (\<lambda>p. snd p > 0) (map (\<lambda>b. (b, df_cell m u b)) (df_columns m))))) us))
     = {b \<in> set (df_columns m). df_cell m t b = 0 \<and> (\<exists>u \<in> set us. df_cell m u b \<noteq> 0)}"
    (is "?l = ?r")
proof
  show "?l \<subseteq> ?r"
    by force
  show "?r \<subseteq> ?l"
  proof
    fix b assume "b \<in> ?r"
    then obtain u where u: "b \<in> set (df_columns m)" "df_cell m t b = 0" "u \<in> set us" "df_cell m u b \<noteq> 0"
      by auto
    then have "0 < df_cell m u b" using nn [of u b] by simp
    with u have "(b, df_cell m u b * s u) \<in> set (map (\<lambda>p. (fst p, snd p * s u))
                  (filter (\<lambda>p. df_cell m t (fst p) = 0)
                     (filter (\<lambda>p. snd p > 0) (map (\<lambda>b. (b, df_cell m u b)) (df_columns m)))))"
      by (auto simp: image_iff)
    with u(3) show "b \<in> ?l"
      by force
  qed
qed


lemma contribution_value:
  assumes dc: "distinct (df_columns m)" and nn: "\<And>u b. 0 \<le> df_cell m u b"
    and key: "b \<in> set (df_columns m)" "df_cell m t b = 0"
  shows "sum_list (map snd (filter (\<lambda>q. fst q = b)
           (concat (map (\<lambda>u. map (\<lambda>p. (fst p, snd p * s u))
                  (filter (\<lambda>p. df_cell m t (fst p) = 0)
                     (filter (\<lambda>p. snd p > 0) (map (\<lambda>b. (b, df_cell m u b)) (df_columns m))))) us))))
       = (\<Sum>u\<leftarrow>us. df_cell m u b * s u)"
proof -
  have one: "sum_list (map snd (filter (\<lambda>q. fst q = b)
               (map (\<lambda>p. (fst p, snd p * s u))
                  (filter (\<lambda>p. df_cell m t (fst p) = 0)
                     (filter (\<lambda>p. snd p > 0) (map (\<lambda>b. (b, df_cell m u b)) (df_columns m)))))))
           = df_cell m u b * s u" for u
  proof -
    have f: "filter (\<lambda>p. df_cell m t (fst p) = 0)
                     (filter (\<lambda>p. snd p > 0) (map (\<lambda>b. (b, df_cell m u b)) (df_columns m)))
           = filter (\<lambda>p. snd p > 0 \<and> df_cell m t (fst p) = 0) (map (\<lambda>b. (b, df_cell m u b)) (df_columns m))"
      by simp
    have z: "df_cell m u b = 0" if "\<not> 0 < df_cell m u b"
      using that nn [of u b] by simp
    show ?thesis
      unfolding f contribution_sum [OF dc]
      using key z by simp
  qed
  show ?thesis
    unfolding sum_filter_concat map_map comp_def one ..
qed

lemma set_tl_subset: "set (tl xs) \<subseteq> set xs"
  by (cases xs) auto

lemma collab_run:
  assumes t: "t \<in> set (df_index m)"
    and cf: "user_item_matrix cf = Some m" "user_similarity_matrix cf = Some (user_similarity m)"
  shows "collab_recommend cf t n =
     Inr (take n (sort_desc snd
       (fold (\<lambda>p d. dict_add d (fst p) (snd p))
          (concat (map (\<lambda>u. map (\<lambda>p. (fst p, snd p * df_cell (user_similarity m) t u))
                  (filter (\<lambda>p. df_cell m t (fst p) = 0)
                     (filter (\<lambda>p. snd p > 0) (map (\<lambda>b. (b, df_cell m u b)) (df_columns m)))))
             (tl (take 6 (sort_desc (\<lambda>u. cosine_similarity (df_row_values m u) (df_row_values m t))
                            (df_index m)))))) [])))"
proof -
  let ?s = "user_similarity m"
  let ?f = "\<lambda>u. cosine_similarity (df_row_values m u) (df_row_values m t)"
  let ?users = "tl (take 6 (sort_desc ?f (df_index m)))"
  have col: "df_getitem ?s t = Inr (map (\<lambda>u. (u, ?f u)) (df_index m))"
    using t by (simp add: df_getitem_def user_similarity_def)
  have users: "tl (map fst (nlargest 6 (map (\<lambda>u. (u, ?f u)) (df_index m)))) = ?users"
    by (simp add: nlargest_def sort_desc_map take_map comp_def)
  have "set ?users \<subseteq> set (df_index m)"
    using set_tl_subset [of "take 6 (sort_desc ?f (df_index m))"]
      set_take_subset [of 6 "sort_desc ?f (df_index m)"]
    by (auto simp: sort_desc_def)
  then have inu: "list_all (\<lambda>u. u \<in> set (df_index m)) ?users"
    by (auto simp: list_all_iff)
  note agg = aggregate_users_eq [OF t inu, of ?s "[]"]
  have agg': "aggregate_users m ?s t ?users [] = Inr
       (fold (\<lambda>p d. dict_add d (fst p) (snd p))
          (concat (map (\<lambda>u. map (\<lambda>p. (fst p, snd p * df_cell (user_similarity m) t u))
                  (filter (\<lambda>p. df_cell m t (fst p) = 0)
                     (filter (\<lambda>p. snd p > 0) (map (\<lambda>b. (b, df_cell m u b)) (df_columns m)))))
             ?users)) [])"
    by (rule agg) (simp_all add: user_similarity_def)
  show ?thesis
    unfolding collab_recommend_def cf option.case col sum.case users agg'
    using t by (simp only: not_not if_False simp_thms)
qed

lemma similar_row_no_contribution:
  assumes "cosine_similarity (df_row_values m u) (df_row_values m t) = 1"
    and "l2_norm (df_row_values m u) \<noteq> 0" "l2_norm (df_row_values m t) \<noteq> 0"
  shows "filter (\<lambda>p. df_cell m t (fst p) = 0)
           (filter (\<lambda>p. snd p > 0) (map (\<lambda>b. (b, df_cell m u b)) (df_columns m))) = []"
proof -
  have "df_cell m t b \<noteq> 0" if "b \<in> set (df_columns m)" "df_cell m u b > 0" for b
  proof -
    from that(1) obtain i where i: "i < length (df_columns m)" "df_columns m ! i = b"
      by (auto simp: in_set_conv_nth)
    have "df_row_values m t ! i > 0"
      using cosine_one_support [of "df_row_values m u" "df_row_values m t" i] assms i that(2)
      by (simp add: df_row_values_def)
    then show ?thesis using i by (simp add: df_row_values_def)
  qed
  then show ?thesis
    by (auto simp: filter_empty_conv)
qed

lemma collab_core:
  assumes di: "distinct (df_index m)" and dc: "distinct (df_columns m)"
    and t: "t \<in> set (df_index m)"
    and nn: "\<And>u b. 0 \<le> df_cell m u b"
    and nz: "\<And>u. u \<in> set (df_index m) \<Longrightarrow> \<exists>b\<in>set (df_columns m). df_cell m u b \<noteq> 0"
    and cf: "user_item_matrix cf = Some m" "user_similarity_matrix cf = Some (user_similarity m)"
  shows "\<exists>acc. collab_recommend cf t n = Inr (take n (sort_desc snd acc))
     \<and> distinct (map fst acc)
     \<and> fst ` set acc = {b \<in> set (df_columns m). df_cell m t b = 0
                          \<and> (\<exists>u \<in> set (spec_similar_users m t). df_cell m u b \<noteq> 0)}
     \<and> list_all (\<lambda>p. snd p = (\<Sum>u\<leftarrow>spec_similar_users m t. df_cell m u (fst p) *
                        cosine_similarity (df_row_values m t) (df_row_values m u))) acc"
proof -
  let ?s = "user_similarity m"
  let ?f = "\<lambda>u. cosine_similarity (df_row_values m u) (df_row_values m t)"
  let ?g = "\<lambda>u. cosine_similarity (df_row_values m t) (df_row_values m u)"
  let ?c = "\<lambda>u. map (\<lambda>p. (fst p, snd p * df_cell ?s t u))
                  (filter (\<lambda>p. df_cell m t (fst p) = 0)
                     (filter (\<lambda>p. snd p > 0) (map (\<lambda>b. (b, df_cell m u b)) (df_columns m))))"
  let ?users = "tl (take 6 (sort_desc ?f (df_index m)))"
  let ?N = "spec_similar_users m t"
  let ?acc = "fold (\<lambda>p d. dict_add d (fst p) (snd p)) (concat (map ?c ?N)) []"
  have fg: "?f = ?g"
    by (simp add: cosine_similarity_commute)
  have norm: "l2_norm (df_row_values m u) \<noteq> 0" if "u \<in> set (df_index m)" for u
    using nz [OF that] nonzero_row [of _ "df_columns m" "df_cell m u"]
    by (auto simp: df_row_values_def)
  have len: "length (df_row_values m u) = length (df_row_values m v)" for u v
    by (simp add: df_row_values_def)
  have ft: "?f t = 1"
    using norm [OF t] by (simp add: cosine_self)
  have mx: "list_all (\<lambda>u. ?f u \<le> ?f t) (df_index m)"
    unfolding ft list_all_iff using norm t cosine_le_one [OF len] by blast
  have cz: "list_all (\<lambda>u. ?f u = ?f t \<longrightarrow> ?c u = []) (df_index m)"
    unfolding ft list_all_iff
  proof (intro ballI impI)
    fix u assume "u \<in> set (df_index m)" "?f u = 1"
    then have "filter (\<lambda>p. df_cell m t (fst p) = 0)
           (filter (\<lambda>p. snd p > 0) (map (\<lambda>b. (b, df_cell m u b)) (df_columns m))) = []"
      using similar_row_no_contribution [of m u t] norm t by blast
    then show "?c u = []" by (simp only: list.map)
  qed
  have N: "?N = take 5 (sort_desc ?f (filter (\<lambda>u. u \<noteq> t) (df_index m)))"
    unfolding spec_similar_users_def fg ..
  have same: "concat (map ?c ?users) = concat (map ?c ?N)"
    unfolding N by (rule neighbours_contribute_alike [OF di t mx cz])
  have r: "collab_recommend cf t n = Inr (take n (sort_desc snd ?acc))"
    unfolding collab_run [OF t cf] same ..
  have d: "distinct (map fst ?acc)"
    by (rule fold_dict_add_distinct) simp
  have sim: "df_cell ?s t = ?g"
    by (simp add: user_similarity_def)
  have k: "fst ` set ?acc = {b \<in> set (df_columns m). df_cell m t b = 0
                          \<and> (\<exists>u \<in> set ?N. df_cell m u b \<noteq> 0)}"
    unfolding fold_dict_add_keys contribution_keys [of m, OF nn] by simp
  have v: "snd p = (\<Sum>u\<leftarrow>?N. df_cell m u (fst p) * ?g u)" if p: "p \<in> set ?acc" for p
  proof -
    have "fst p \<in> fst ` set ?acc" using p by (rule imageI)
    then have key: "fst p \<in> set (df_columns m)" "df_cell m t (fst p) = 0"
      unfolding k by simp_all
    have "(fst p, snd p) \<in> set ?acc" using p by simp
    then have "snd p = sum_list (map snd (filter (\<lambda>q. fst q = fst p) (concat (map ?c ?N))))"
      by (rule fold_dict_add_value)
    also have "\<dots> = (\<Sum>u\<leftarrow>?N. df_cell m u (fst p) * df_cell ?s t u)"
      by (rule contribution_value [OF dc nn key])
    finally show ?thesis unfolding sim .
  qed
  have v': "list_all (\<lambda>p. snd p = (\<Sum>u\<leftarrow>?N. df_cell m u (fst p) * ?g u)) ?acc"
    unfolding list_all_iff using v by blast
  from r d k v' show ?thesis by blast
qed

section \<open>Collaborative recommendations\<close>

text \<open>
  Fit a filter on well rated records and take a student \<open>t\<close> of the records. The
  fitted matrix lists each student and each book once, and a cell is non-zero exactly
  for the pairs that have a record. With fewer than 2 students, and no similarity
  matrix left from an earlier fit, there is no similarity matrix and \<open>recommend\<close>
  returns the empty list. With 2 students or more the result is the first \<open>n\<close>, in
  descending order of score, of an accumulated list that has one entry for each book
  that \<open>t\<close> has no record of and some neighbour has, with the sum over the
  neighbours of weight times similarity as its score; no returned book is one \<open>t\<close>
  has a record of. The neighbours are \<open>spec_similar_users\<close>: the 5 most similar
  users other than \<open>t\<close>, all the others when there are fewer than 5. (The code
  itself drops the first of the 6 most similar users, which is \<open>t\<close> or a user with a
  row proportional to that of \<open>t\<close>; neither contributes a book, so the result is the
  same.)
\<close>

lemma collab_recommend_neighbours:
  assumes so: "set_order list_set"
    and wr: "list_all well_rated recs"
    and t: "t \<in> rec_student_id ` set recs"
  shows "\<exists>m. user_item_matrix (fit list_set cf0 recs) = Some m
     \<and> distinct (df_index m) \<and> set (df_index m) = rec_student_id ` set recs
     \<and> distinct (df_columns m) \<and> set (df_columns m) = rec_book_id ` set recs
     \<and> (\<forall>u b. (df_cell m u b \<noteq> 0) =
                (\<exists>r\<in>set recs. rec_student_id r = u \<and> rec_book_id r = b))
     \<and> t \<notin> set (spec_similar_users m t)
     \<and> length (spec_similar_users m t) = min 5 (length (df_index m) - 1)
     \<and> (length (df_index m) < 2 \<and> user_similarity_matrix cf0 = None \<longrightarrow>
          user_similarity_matrix (fit list_set cf0 recs) = None
          \<and> collab_recommend (fit list_set cf0 recs) t n = Inr [])
     \<and> (2 \<le> length (df_index m) \<longrightarrow>
          (\<exists>acc. collab_recommend (fit list_set cf0 recs) t n
                   = Inr (take n (sort_desc snd acc))
             \<and> distinct (map fst acc)
             \<and> fst ` set acc =
                 {b \<in> set (df_columns m). df_cell m t b = 0
                    \<and> (\<exists>u \<in> set (spec_similar_users m t). df_cell m u b \<noteq> 0)}
             \<and> list_all (\<lambda>p. snd p =
                   (\<Sum>u\<leftarrow>spec_similar_users m t. df_cell m u (fst p) *
                      cosine_similarity (df_row_values m t) (df_row_values m u))) acc
             \<and> list_all (\<lambda>p. df_cell m t (fst p) = 0) (take n (sort_desc snd acc))))"
proof -
  let ?us = "list_set (map rec_student_id recs)"
  let ?bs = "list_set (map rec_book_id recs)"
  let ?m = "fill_matrix recs \<lparr>df_index = ?us, df_columns = ?bs, df_cell = (\<lambda>u b. 0)\<rparr>"
  let ?cf = "fit list_set cf0 recs"
  have lab: "df_index ?m = ?us" "df_columns ?m = ?bs"
    by (simp_all add: fill_matrix_labels)
  have us: "distinct ?us" "set ?us = rec_student_id ` set recs"
    and bs: "distinct ?bs" "set ?bs = rec_book_id ` set recs"
    using so by (simp_all add: set_order_def)
  have m: "user_item_matrix ?cf = Some ?m"
    by (simp add: fit_def Let_def)
  have s1: "user_similarity_matrix ?cf = None"
    if "length ?us < 2" "user_similarity_matrix cf0 = None"
    using that by (simp add: fit_def Let_def)
  have s2: "user_similarity_matrix ?cf = Some (user_similarity ?m)" if "2 \<le> length ?us"
    using that by (simp add: fit_def Let_def)
  have tin: "t \<in> set (df_index ?m)"
    using t by (simp add: lab us)
  have nzc: "(df_cell ?m u b \<noteq> 0) = (\<exists>r\<in>set recs. rec_student_id r = u \<and> rec_book_id r = b)" for u b
    by (rule fill_matrix_nonzero)
  have nn: "0 \<le> df_cell ?m u b" for u b
    by (rule fill_matrix_nonneg [OF wr])
  have nz: "\<exists>b\<in>set (df_columns ?m). df_cell ?m u b \<noteq> 0" if "u \<in> set (df_index ?m)" for u
  proof -
    from that obtain r where r: "r \<in> set recs" "rec_student_id r = u"
      by (auto simp: lab us)
    then have "rec_book_id r \<in> set (df_columns ?m)" "df_cell ?m u (rec_book_id r) \<noteq> 0"
      unfolding nzc by (auto simp: lab bs)
    then show ?thesis by blast
  qed
  have n1: "t \<notin> set (spec_similar_users ?m t)"
  proof
    assume "t \<in> set (spec_similar_users ?m t)"
    then have "t \<in> set (sort_desc (\<lambda>u. cosine_similarity (df_row_values ?m t) (df_row_values ?m u))
               (filter (\<lambda>u. u \<noteq> t) (df_index ?m)))"
      unfolding spec_similar_users_def by (rule in_set_takeD)
    then show False by (simp add: sort_desc_def)
  qed
  have "length (filter (\<lambda>u. u \<noteq> t) ?us) = length ?us - 1"
  proof -
    have "filter (\<lambda>u. u \<noteq> t) ?us = remove1 t ?us"
      using us(1) by (simp add: distinct_remove1_removeAll removeAll_filter_not_eq) metis
    then show ?thesis
      using tin by (simp add: length_remove1 lab)
  qed
  then have n2: "length (spec_similar_users ?m t) = min 5 (length ?us - 1)"
    by (simp add: spec_similar_users_def sort_desc_def lab)
  have small: "collab_recommend ?cf t n = Inr []"
    if "length ?us < 2" "user_similarity_matrix cf0 = None"
    using tin by (simp add: collab_recommend_def m s1 [OF that])
  have big: "\<exists>acc. collab_recommend ?cf t n = Inr (take n (sort_desc snd acc))
             \<and> distinct (map fst acc)
             \<and> fst ` set acc =
                 {b \<in> set (df_columns ?m). df_cell ?m t b = 0
                    \<and> (\<exists>u \<in> set (spec_similar_users ?m t). df_cell ?m u b \<noteq> 0)}
             \<and> list_all (\<lambda>p. snd p =
                   (\<Sum>u\<leftarrow>spec_similar_users ?m t. df_cell ?m u (fst p) *
                      cosine_similarity (df_row_values ?m t) (df_row_values ?m u))) acc
             \<and> list_all (\<lambda>p. df_cell ?m t (fst p) = 0) (take n (sort_desc snd acc))"
    if l: "2 \<le> length ?us"
  proof -
    have di: "distinct (df_index ?m)" and dc: "distinct (df_columns ?m)"
      by (simp_all add: lab us bs)
    from collab_core [OF di dc tin nn nz m s2 [OF l], of n]
    obtain acc where acc: "collab_recommend ?cf t n = Inr (take n (sort_desc snd acc))"
      "distinct (map fst acc)"
      "fst ` set acc = {b \<in> set (df_columns ?m). df_cell ?m t b = 0
                    \<and> (\<exists>u \<in> set (spec_similar_users ?m t). df_cell ?m u b \<noteq> 0)}"
      "list_all (\<lambda>p. snd p =
                   (\<Sum>u\<leftarrow>spec_similar_users ?m t. df_cell ?m u (fst p) *
                      cosine_similarity (df_row_values ?m t) (df_row_values ?m u))) acc"
      by blast
    have "df_cell ?m t (fst p) = 0" if "p \<in> set (take n (sort_desc snd acc))" for p
    proof -
      have "p \<in> set acc"
        using that set_take_subset [of n "sort_desc snd acc"] by (auto simp: sort_desc_def)
      then have "fst p \<in> fst ` set acc" by (rule imageI)
      then show ?thesis unfolding acc(3) by simp
    qed
    then have "list_all (\<lambda>p. df_cell ?m t (fst p) = 0) (take n (sort_desc snd acc))"
      unfolding list_all_iff by blast
    with acc show ?thesis by blast
  qed
  show ?thesis
    apply (rule exI [of _ ?m])
    unfolding lab
    using m us bs nzc s1 small big n1 n2
    unfolding lab
    by blast
qed

lemma example_records_fit:
  "user_item_matrix (fit remdups collaborative_filter_init
      [example_record ''S1'' ''B1'', example_record ''S2'' ''B2'']) =
    Some (fill_matrix [example_record ''S1'' ''B1'', example_record ''S2'' ''B2'']
           \<lparr>df_index = [''S1'', ''S2''], df_columns = [''B1'', ''B2''], df_cell = (\<lambda>u b. 0)\<rparr>)"
  by (simp add: fit_def Let_def example_record_def)

lemma collab_recommend_neighbours_example:
  "set_order remdups
   \<and> list_all well_rated [example_record ''S1'' ''B1'', example_record ''S2'' ''B2'']
   \<and> ''S1'' \<in> rec_student_id ` set [example_record ''S1'' ''B1'', example_record ''S2'' ''B2'']
   \<and> (\<exists>acc. collab_recommend (fit remdups collaborative_filter_init
                 [example_record ''S1'' ''B1'', example_record ''S2'' ''B2'']) ''S1'' 3
               = Inr (take 3 (sort_desc snd acc))
          \<and> fst ` set acc = {''B2''})"
proof -
  let ?recs = "[example_record ''S1'' ''B1'', example_record ''S2'' ''B2'']"
  let ?m = "fill_matrix ?recs
           \<lparr>df_index = [''S1'', ''S2''], df_columns = [''B1'', ''B2''], df_cell = (\<lambda>u b. 0)\<rparr>"
  have h1: "set_order remdups" by (rule set_order_remdups)
  have h2: "list_all well_rated ?recs"
    by (simp add: well_rated_def example_record_def)
  have h3: "''S1'' \<in> rec_student_id ` set ?recs"
    by (simp add: example_record_def)
  have lab: "df_index ?m = [''S1'', ''S2'']" "df_columns ?m = [''B1'', ''B2'']"
    by (simp_all add: fill_matrix_labels)
  have cells: "df_cell ?m ''S1'' ''B1'' = 1" "df_cell ?m ''S1'' ''B2'' = 0"
    "df_cell ?m ''S2'' ''B1'' = 0" "df_cell ?m ''S2'' ''B2'' = 1"
    by (simp_all add: fill_matrix_cell example_record_def record_value_def)
  have N: "spec_similar_users ?m ''S1'' = [''S2'']"
    by (simp add: spec_similar_users_def lab sort_desc_def)
  from collab_recommend_neighbours [OF h1 h2 h3, of collaborative_filter_init 3]
  obtain m where m: "user_item_matrix (fit remdups collaborative_filter_init ?recs) = Some m"
    and big: "2 \<le> length (df_index m) \<longrightarrow>
          (\<exists>acc. collab_recommend (fit remdups collaborative_filter_init ?recs) ''S1'' 3
                   = Inr (take 3 (sort_desc snd acc))
             \<and> distinct (map fst acc)
             \<and> fst ` set acc =
                 {b \<in> set (df_columns m). df_cell m ''S1'' b = 0
                    \<and> (\<exists>u \<in> set (spec_similar_users m ''S1''). df_cell m u b \<noteq> 0)}
             \<and> list_all (\<lambda>p. snd p =
                   (\<Sum>u\<leftarrow>spec_similar_users m ''S1''. df_cell m u (fst p) *
                      cosine_similarity (df_row_values m ''S1'') (df_row_values m u))) acc
             \<and> list_all (\<lambda>p. df_cell m ''S1'' (fst p) = 0) (take 3 (sort_desc snd acc)))"
    by (elim exE conjE) (rule that, assumption+)
  have me: "m = ?m"
    using m unfolding example_records_fit by (rule option.inject [THEN iffD1, symmetric])
  have "{b \<in> set (df_columns ?m). df_cell ?m ''S1'' b = 0
          \<and> (\<exists>u \<in> set (spec_similar_users ?m ''S1''). df_cell ?m u b \<noteq> 0)} = {''B2''}"
    unfolding N lab set_filter [symmetric] by (simp add: cells)
  with big have "\<exists>acc. collab_recommend (fit remdups collaborative_filter_init ?recs) ''S1'' 3
               = Inr (take 3 (sort_desc snd acc)) \<and> fst ` set acc = {''B2''}"
    unfolding me lab by (elim impE exE conjE) (simp, metis)
  with h1 h2 h3 show ?thesis by (intro conjI)
qed

section \<open>A refit with a single student\<close>

text \<open>
  C5. \<open>fit\<close> assigns the user similarity matrix only when the records have at least
  two students, and never clears it. Fit a filter on records of S1 and S2 and then on
  one record of S3: the fitted matrix has the single student S3 (fewer than 2 users),
  the similarity matrix of the first fit is still in place, and \<open>recommend\<close> for S3,
  a student of the fitted matrix, looks S3 up in that old matrix and raises
  \<open>KeyError\<close> where the empty list is specified.
\<close>

theorem collab_recommend_stale_matrix:
  "map_option df_index (user_item_matrix
     (fit remdups
        (fit remdups collaborative_filter_init
           [example_record ''S1'' ''B1'', example_record ''S2'' ''B2''])
        [example_record ''S3'' ''B1''])) = Some [''S3'']
   \<and> map_option df_index (user_similarity_matrix
     (fit remdups
        (fit remdups collaborative_filter_init
           [example_record ''S1'' ''B1'', example_record ''S2'' ''B2''])
        [example_record ''S3'' ''B1''])) = Some [''S1'', ''S2'']
   \<and> collab_recommend
     (fit remdups
        (fit remdups collaborative_filter_init
           [example_record ''S1'' ''B1'', example_record ''S2'' ''B2''])
        [example_record ''S3'' ''B1'']) ''S3'' 5 = Inl KeyError"
  by (simp add: fit_def Let_def example_record_def collaborative_filter_init_def
      fill_matrix_labels user_similarity_def collab_recommend_def df_getitem_def)

end
